theory Spec2Isabelle
  imports Main
begin

section \<open>Python values\<close>

text \<open>
  The values that travel between the relational table, the Notion client and the
  sync passes are Python objects decoded from JSON: \<open>None\<close>, booleans, integers,
  strings, lists and dictionaries. A dictionary is kept as the list of its items in
  insertion order, which is the order \<open>dict.items()\<close> yields. Characters are code
  points below 256. JSON numbers with a fraction do not occur in the record fields
  and are not part of the type.
\<close>

datatype pyval =
    PNone
  | PBool bool
  | PInt int
  | PStr string
  | PList "pyval list"
  | PDict "(string \<times> pyval) list"

text \<open>Truth value of a Python object, as \<open>if x:\<close> and \<open>not x\<close> test it.\<close>

fun truthy :: "pyval \<Rightarrow> bool" where
  "truthy PNone = False"
| "truthy (PBool b) = b"
| "truthy (PInt n) = (n \<noteq> 0)"
| "truthy (PStr s) = (s \<noteq> [])"
| "truthy (PList xs) = (xs \<noteq> [])"
| "truthy (PDict kvs) = (kvs \<noteq> [])"

text \<open>
  Python's \<open>==\<close> on these values: booleans compare as the integers 0 and 1,
  lists element by element, dictionaries by their key sets and the values under
  each key, whatever the order of the items.
\<close>

fun py_eq :: "pyval \<Rightarrow> pyval \<Rightarrow> bool"
  and py_eq_items :: "pyval list \<Rightarrow> pyval list \<Rightarrow> bool"
  and py_eq_values :: "(string \<times> pyval) list \<Rightarrow> (string \<times> pyval) list \<Rightarrow> bool" where
  "py_eq PNone y = (y = PNone)"
| "py_eq (PBool a) y = (y = PBool a \<or> y = PInt (if a then 1 else 0))"
| "py_eq (PInt n) y = (y = PInt n \<or> (n = 1 \<and> y = PBool True) \<or> (n = 0 \<and> y = PBool False))"
| "py_eq (PStr s) y = (y = PStr s)"
| "py_eq (PList xs) y = (case y of PList ys \<Rightarrow> py_eq_items xs ys | _ \<Rightarrow> False)"
| "py_eq (PDict kvs) y =
     (case y of PDict kws \<Rightarrow> length kvs = length kws \<and> py_eq_values kvs kws | _ \<Rightarrow> False)"
| "py_eq_items [] ys = (ys = [])"
| "py_eq_items (x # xs) ys = (case ys of [] \<Rightarrow> False | y # ys' \<Rightarrow> py_eq x y \<and> py_eq_items xs ys')"
| "py_eq_values [] kws = True"
| "py_eq_values ((k, v) # kvs) kws =
     ((case map_of kws k of None \<Rightarrow> False | Some w \<Rightarrow> py_eq v w) \<and> py_eq_values kvs kws)"

section \<open>Rendering values as text\<close>

text \<open>
  \<open>str(value)\<close>: a string is itself, \<open>None\<close>, booleans and integers print as
  Python prints them, and a list or dictionary prints the \<open>repr\<close> of its parts.
  \<open>repr\<close> of a string picks the quote, escapes the quote and the backslash, writes
  tab, newline and carriage return as \<open>\t\<close>, \<open>\n\<close>, \<open>\r\<close> and every other
  character that is not printable as \<open>\xhh\<close>.
\<close>

function digits_of :: "nat \<Rightarrow> string" where
  "digits_of n =
     (if n < 10 then [char_of (48 + n)]
      else digits_of (n div 10) @ [char_of (48 + n mod 10)])"
  by pat_completeness auto
termination
  by (relation "measure id") auto

definition str_int :: "int \<Rightarrow> string" where
  "str_int i = (if i < 0 then CHR ''-'' # digits_of (nat (- i)) else digits_of (nat i))"

definition hex_digit :: "nat \<Rightarrow> char" where
  "hex_digit n = (if n mod 16 < 10 then char_of (48 + n mod 16) else char_of (87 + n mod 16))"

definition printable :: "char \<Rightarrow> bool" where
  "printable c =
     (let n = (of_char c :: nat)
      in (32 \<le> n \<and> n < 127) \<or> (161 \<le> n \<and> n \<noteq> 173))"

definition repr_char :: "char \<Rightarrow> char \<Rightarrow> string" where
  "repr_char quote c =
     (let n = (of_char c :: nat)
      in if c = quote \<or> n = 92 then [char_of (92 :: nat), c]
         else if n = 9 then [char_of (92 :: nat), CHR ''t'']
         else if n = 10 then [char_of (92 :: nat), CHR ''n'']
         else if n = 13 then [char_of (92 :: nat), CHR ''r'']
         else if printable c then [c]
         else [char_of (92 :: nat), CHR ''x'', hex_digit (n div 16), hex_digit n])"

definition repr_str :: "string \<Rightarrow> string" where
  "repr_str s =
     (let quote = (if char_of (39 :: nat) \<in> set s \<and> char_of (34 :: nat) \<notin> set s
                   then char_of (34 :: nat) else char_of (39 :: nat))
      in [quote] @ concat (map (repr_char quote) s) @ [quote])"

fun join :: "string \<Rightarrow> string list \<Rightarrow> string" where
  "join sep [] = []"
| "join sep [x] = x"
| "join sep (x # y # ys) = x @ sep @ join sep (y # ys)"

fun py_repr :: "pyval \<Rightarrow> string" where
  "py_repr PNone = ''None''"
| "py_repr (PBool b) = (if b then ''True'' else ''False'')"
| "py_repr (PInt n) = str_int n"
| "py_repr (PStr s) = repr_str s"
| "py_repr (PList xs) = ''['' @ join '', '' (map py_repr xs) @ '']''"
| "py_repr (PDict kvs) =
     ''{'' @ join '', '' (map (\<lambda>kv. repr_str (fst kv) @ '': '' @ py_repr (snd kv)) kvs) @ ''}''"

definition py_str :: "pyval \<Rightarrow> string" where
  "py_str v = (case v of PStr s \<Rightarrow> s | _ \<Rightarrow> py_repr v)"

section \<open>The place card record (core/model.py)\<close>

text \<open>
  One row of the table \<open>google_sheet_data\<close>. A text column of a stored row is
  a string or \<open>None\<close> (NULL); the attribute of an object in a session is that,
  or whatever value the pass has assigned to it since. The two flags are Boolean
  columns with default \<open>False\<close>.
\<close>

record ModelPlaceCard =
  Name :: pyval
  id_key :: nat
  ID :: pyval
  id_page :: pyval
  type :: pyval
  photo :: pyval
  location :: pyval
  google_map :: pyval
  phone_number :: pyval
  whatsapp :: pyval
  hours_of_operation :: pyval
  coordinates :: pyval
  data_manager :: pyval
  manager_phone_number :: pyval
  is_new :: bool
  is_updated :: bool

text \<open>
  \<open>ModelPlaceCard.to_dict\<close>: the items are added in the order of the source's
  \<open>if\<close> statements. The last one adds \<open>Location\<close> under the test of
  \<open>manager_phone_number\<close>, as the source does.
\<close>

definition to_dict :: "ModelPlaceCard \<Rightarrow> (string \<times> pyval) list" where
  "to_dict self =
     (if truthy (Name self) then [(''Name'', Name self)] else []) @
     (if truthy (type self) then [(''Type'', type self)] else []) @
     (if truthy (photo self) then [(''Photo Google Drive'', photo self)] else []) @
     (if truthy (google_map self) then [(''Google Map'', google_map self)] else []) @
     (if truthy (phone_number self) then [(''Phone Number'', phone_number self)] else []) @
     (if truthy (whatsapp self) then [(''WhatsApp Number'', whatsapp self)] else []) @
     (if truthy (hours_of_operation self)
      then [(''Hours of Operation'', hours_of_operation self)] else []) @
     (if truthy (manager_phone_number self)
      then [(''Owner / Manager'', manager_phone_number self)] else []) @
     (if truthy (manager_phone_number self) then [(''Location'', location self)] else [])"

section \<open>Exceptions\<close>

text \<open>
  The exceptions the modelled code can meet, all of them subclasses of
  \<open>Exception\<close>: \<open>RequestError\<close> stands for any failure of the HTTP layer or an
  error answer of the Notion API, \<open>DatabaseError\<close> for the error of the database
  driver on a value it cannot bind to a statement.
\<close>

datatype error =
    RequestError
  | AttributeError
  | KeyError
  | TypeError
  | ValueError
  | IndexError
  | DatabaseError

section \<open>Formatting a property for Notion (models/notion.py)\<close>

definition text_item :: "pyval \<Rightarrow> pyval" where
  "text_item content = PDict [(''type'', PStr ''text''), (''text'', PDict [(''content'', content)])]"

text \<open>
  \<open>Notion.format_property\<close>. The last \<open>elif\<close> indexes \<open>value["name"]\<close>, which
  raises \<open>KeyError\<close> on a dictionary without that key.
\<close>

definition format_property :: "string \<Rightarrow> pyval \<Rightarrow> error + pyval" where
  "format_property column_name v =
     (if column_name = ''Name'' then Inr (PDict [(''title'', PList [text_item v])])
      else if column_name = ''Photo Google Drive'' \<or> column_name = ''Google Map''
        then Inr (PDict [(''url'', v)])
      else if column_name = ''Type'' then Inr (PDict [(''select'', PDict [(''name'', v)])])
      else if column_name = ''Phone Number'' \<or> column_name = ''WhatsApp Number''
              \<or> column_name = ''Hours of Operation'' \<or> column_name = ''Phone Number''
              \<or> column_name = ''Owner / Manager''
        then Inr (PDict [(''rich_text'', PList [text_item (PStr (py_str v))])])
      else (case v of
          PStr s \<Rightarrow> Inr (PDict [(''rich_text'', PList [text_item v])])
        | PList xs \<Rightarrow> Inr (PDict [(''multi_select'', PList (map (\<lambda>val. PDict [(''name'', val)]) xs))])
        | PBool b \<Rightarrow> Inr (PDict [(''checkbox'', v)])
        | PInt n \<Rightarrow> Inr (PDict [(''number'', v)])
        | PDict kvs \<Rightarrow>
            (case map_of kvs ''name'' of
               None \<Rightarrow> Inl KeyError
             | Some nm \<Rightarrow> Inr (PDict [(''select'', PDict [(''name'', nm)])]))
        | PNone \<Rightarrow> Inr (PDict [(''rich_text'', PList [text_item (PStr (py_str v))])])))"

section \<open>The Notion client and the upsert (models/notion.py)\<close>

text \<open>
  The Notion service is outside the repository. Its client is a parameter: three
  operations over some state \<open>'w\<close> of the external table. Each may fail with an
  exception; a call that changes the table returns the new state as well.
  \<^item> \<open>databases_query\<close> is \<open>collect_paginated_api(client.databases.query, ...)\<close>;
  \<^item> \<open>pages_update\<close> is \<open>client.pages.update(page_id, properties)\<close>;
  \<^item> \<open>pages_create\<close> is \<open>client.pages.create(parent, properties)\<close>.
\<close>

record 'w notion_client =
  databases_query :: "'w \<Rightarrow> error + pyval list"
  pages_update :: "pyval \<Rightarrow> (string \<times> pyval) list \<Rightarrow> 'w \<Rightarrow> (error + pyval) \<times> 'w"
  pages_create :: "(string \<times> pyval) list \<Rightarrow> 'w \<Rightarrow> (error + pyval) \<times> 'w"

text \<open>\<open>Notion.read_all_rows\<close>: logs and re-raises what the query raises.\<close>

definition read_all_rows :: "'w notion_client \<Rightarrow> 'w \<Rightarrow> error + pyval list" where
  "read_all_rows c w = (case databases_query c w of Inl e \<Rightarrow> Inl e | Inr rows \<Rightarrow> Inr rows)"

text \<open>\<open>d[k]\<close> with a string key: only a dictionary can be indexed so.\<close>

definition getitem :: "pyval \<Rightarrow> string \<Rightarrow> error + pyval" where
  "getitem d k =
     (case d of
        PDict kvs \<Rightarrow> (case map_of kvs k of None \<Rightarrow> Inl KeyError | Some v \<Rightarrow> Inr v)
      | _ \<Rightarrow> Inl TypeError)"

text \<open>\<open>next((row for row in rows if row["id"] == row_id), None)\<close>\<close>

fun find_existing_row :: "pyval list \<Rightarrow> pyval \<Rightarrow> error + pyval option" where
  "find_existing_row [] row_id = Inr None"
| "find_existing_row (row # rows) row_id =
     (case getitem row ''id'' of
        Inl e \<Rightarrow> Inl e
      | Inr i \<Rightarrow> if py_eq i row_id then Inr (Some row) else find_existing_row rows row_id)"

text \<open>The loop that fills \<open>properties\<close> from \<open>row_data.items()\<close>.\<close>

fun format_properties :: "(string \<times> pyval) list \<Rightarrow> error + (string \<times> pyval) list" where
  "format_properties [] = Inr []"
| "format_properties ((column_name, v) # items) =
     (case format_property column_name v of
        Inl e \<Rightarrow> Inl e
      | Inr p \<Rightarrow>
          (case format_properties items of
             Inl e \<Rightarrow> Inl e
           | Inr ps \<Rightarrow> Inr ((column_name, p) # ps)))"

text \<open>
  After either API call the source logs \<open>response.get('id')\<close>; a response that is
  not a dictionary has no \<open>get\<close> and the log line raises \<open>AttributeError\<close>.
\<close>

definition log_response_id :: "pyval \<Rightarrow> error + pyval" where
  "log_response_id response = (case response of PDict kvs \<Rightarrow> Inr response | _ \<Rightarrow> Inl AttributeError)"

text \<open>
  \<open>Notion.update_or_insert_row\<close>. Its \<open>except\<close> clause logs and re-raises, so
  every exception of the body is the result.
\<close>

definition update_or_insert_row ::
  "'w notion_client \<Rightarrow> pyval \<Rightarrow> (string \<times> pyval) list \<Rightarrow> 'w \<Rightarrow> (error + pyval) \<times> 'w" where
  "update_or_insert_row c row_id row_data w =
     (case read_all_rows c w of
        Inl e \<Rightarrow> (Inl e, w)
      | Inr rows \<Rightarrow>
          (case find_existing_row rows row_id of
             Inl e \<Rightarrow> (Inl e, w)
           | Inr existing_row \<Rightarrow>
               (case format_properties row_data of
                  Inl e \<Rightarrow> (Inl e, w)
                | Inr properties \<Rightarrow>
                    (case (if (case existing_row of None \<Rightarrow> False | Some row \<Rightarrow> truthy row)
                           then pages_update c row_id properties w
                           else pages_create c properties w) of
                       (Inl e, w') \<Rightarrow> (Inl e, w')
                     | (Inr response, w') \<Rightarrow> (log_response_id response, w')))))"

section \<open>The push pass (models/notion.py)\<close>

text \<open>
  \<open>isinstance(response, Dict)\<close>
\<close>

definition isinstance_Dict :: "pyval \<Rightarrow> bool" where
  "isinstance_Dict v = (case v of PDict kvs \<Rightarrow> True | _ \<Rightarrow> False)"

definition selected_for_push :: "ModelPlaceCard \<Rightarrow> bool" where
  "selected_for_push row = (is_new row \<or> is_updated row)"

text \<open>
  One entry of the debug log that \<open>update_or_insert_row\<close> writes when it is
  entered: the row id and the row data of the call.
\<close>

type_synonym upsert_call = "pyval \<times> (string \<times> pyval) list"

text \<open>
  The loop of \<open>_scheduled_task_to_Notion\<close> over the rows the query selected (the
  rows with \<open>is_new\<close> or \<open>is_updated\<close>, in table order). The table is walked
  once: a row the filter does not select is passed over, a selected row is pushed.
  The result is the rows as the session holds them, the state of the external
  table and the upsert calls made; the first exception ends the loop.
\<close>

fun push_rows ::
  "'w notion_client \<Rightarrow> ModelPlaceCard list \<Rightarrow> 'w
     \<Rightarrow> (error + ModelPlaceCard list) \<times> 'w \<times> upsert_call list" where
  "push_rows c [] w = (Inr [], w, [])"
| "push_rows c (row # rows) w =
     (if selected_for_push row then
        (case update_or_insert_row c (id_page row) (to_dict row) w of
           (Inl e, w') \<Rightarrow> (Inl e, w', [(id_page row, to_dict row)])
         | (Inr response, w') \<Rightarrow>
             (let row' = (if isinstance_Dict response
                          then row\<lparr>is_new := False, is_updated := False\<rparr>
                          else row)
              in case push_rows c rows w' of
                   (Inl e, w'', calls) \<Rightarrow> (Inl e, w'', (id_page row, to_dict row) # calls)
                 | (Inr rows', w'', calls) \<Rightarrow>
                     (Inr (row' # rows'), w'', (id_page row, to_dict row) # calls)))
      else
        (case push_rows c rows w of
           (Inl e, w', calls) \<Rightarrow> (Inl e, w', calls)
         | (Inr rows', w', calls) \<Rightarrow> (Inr (row # rows'), w', calls)))"

text \<open>
  What a push pass leaves behind: the table, the external state, the upsert calls
  it made, and the exception its \<open>except\<close> clause logged, if any.
\<close>

record 'w push_result =
  db_after :: "ModelPlaceCard list"
  world_after :: 'w
  upsert_calls :: "upsert_call list"
  logged_error :: "error option"

text \<open>
  \<open>Notion._scheduled_task_to_Notion\<close>. \<open>session.commit()\<close> is reached only when
  the loop ends without an exception; the \<open>except Exception\<close> clause logs and
  returns, and the rows changed in the session are never written.
\<close>

definition scheduled_task_to_Notion ::
  "'w notion_client \<Rightarrow> ModelPlaceCard list \<Rightarrow> 'w \<Rightarrow> error + 'w push_result" where
  "scheduled_task_to_Notion c db w =
     (case push_rows c db w of
        (Inr rows', w', calls) \<Rightarrow>
          Inr \<lparr>db_after = rows', world_after = w', upsert_calls = calls, logged_error = None\<rparr>
      | (Inl e, w', calls) \<Rightarrow>
          Inr \<lparr>db_after = db, world_after = w', upsert_calls = calls, logged_error = Some e\<rparr>)"

section \<open>The coordinate resolver (models/notion.py)\<close>

text \<open>
  The resolver calls four things that are not code of the repository. They are
  parameters of the model, for a type \<open>'f\<close> of floating-point numbers:
  \<^item> \<open>urlparse_path url\<close> is \<open>urllib.parse.urlparse(url).path\<close>, which raises
    \<open>ValueError\<close> on some malformed hosts;
  \<^item> \<open>float_of_str s\<close> is \<open>float(s)\<close>, \<open>None\<close> where it raises \<open>ValueError\<close>;
  \<^item> \<open>str_of_float x\<close> is \<open>repr(x)\<close>, the decimal rendering of a float;
  \<^item> \<open>requests_head_url u\<close> is \<open>requests.head(u, allow_redirects=True).url\<close>, the
    address a short link redirects to, or the exception of the request.
\<close>

record 'f pylib =
  urlparse_path :: "string \<Rightarrow> error + string"
  float_of_str :: "string \<Rightarrow> 'f option"
  str_of_float :: "'f \<Rightarrow> string"
  requests_head_url :: "string \<Rightarrow> error + string"

text \<open>\<open>s.split(sep)\<close> for a separator of one character: never the empty list.\<close>

fun split_on :: "char \<Rightarrow> string \<Rightarrow> string list" where
  "split_on sep [] = [[]]"
| "split_on sep (c # cs) =
     (if c = sep then [] # split_on sep cs
      else (case split_on sep cs of
              [] \<Rightarrow> [[c]]
            | w # ws \<Rightarrow> (c # w) # ws))"

definition is_digit :: "char \<Rightarrow> bool" where
  "is_digit c = (let n = (of_char c :: nat) in 48 \<le> n \<and> n \<le> 57)"

text \<open>
  One number of the pattern, \<open>-?\d{1,2}\.\d{6}\<close>, matched at the start of the
  text: the result is the text after the match.
\<close>

definition match_number :: "string \<Rightarrow> string option" where
  "match_number s =
     (let s1 = (case s of [] \<Rightarrow> s | c # cs \<Rightarrow> if c = CHR ''-'' then cs else s);
          s2 = (case s1 of
                  [] \<Rightarrow> None
                | [a] \<Rightarrow> if is_digit a then Some [] else None
                | a # b # cs \<Rightarrow>
                    if is_digit a \<and> is_digit b then Some cs
                    else if is_digit a then Some (b # cs)
                    else None)
      in case s2 of
           None \<Rightarrow> None
         | Some [] \<Rightarrow> None
         | Some (c # cs) \<Rightarrow>
             if c = CHR ''.'' \<and> 6 \<le> length cs \<and> list_all is_digit (take 6 cs)
             then Some (drop 6 cs) else None)"

text \<open>
  \<open>re.match(r"(-?\d{1,2}\.\d{6}),(-?\d{1,2}\.\d{6})", part)\<close>: a match at the start
  of the segment, whatever follows it.
\<close>

definition re_match_coordinates :: "string \<Rightarrow> bool" where
  "re_match_coordinates part =
     (case match_number part of
        None \<Rightarrow> False
      | Some [] \<Rightarrow> False
      | Some (c # cs) \<Rightarrow> c = CHR '','' \<and> match_number cs \<noteq> None)"

text \<open>
  \<open>return float(coordinates[0]), float(coordinates[1])\<close>, evaluated from left to
  right: a missing element raises \<open>IndexError\<close>, a token that is not a number
  \<open>ValueError\<close>.
\<close>

definition float_pair :: "'f pylib \<Rightarrow> string list \<Rightarrow> error + ('f \<times> 'f) option" where
  "float_pair lib coords =
     (case coords of
        [] \<Rightarrow> Inl IndexError
      | c0 # cs \<Rightarrow>
          (case float_of_str lib c0 of
             None \<Rightarrow> Inl ValueError
           | Some lat \<Rightarrow>
               (case cs of
                  [] \<Rightarrow> Inl IndexError
                | c1 # _ \<Rightarrow>
                    (case float_of_str lib c1 of
                       None \<Rightarrow> Inl ValueError
                     | Some lon \<Rightarrow> Inr (Some (lat, lon))))))"

text \<open>
  The loop of \<open>extract_coordinates_google_maps\<close> over the path segments, with the
  list \<open>coordinates\<close> it carries from one segment to the next.
\<close>

fun extract_from_parts :: "'f pylib \<Rightarrow> string list \<Rightarrow> string list \<Rightarrow> error + ('f \<times> 'f) option" where
  "extract_from_parts lib coords [] = Inr None"
| "extract_from_parts lib coords (part # parts) =
     (case (if CHR ''@'' \<in> set part then
              (case split_on CHR ''@'' part of
                 _ # after # _ \<Rightarrow> Inr (take 2 (split_on CHR '','' after))
               | _ \<Rightarrow> Inl IndexError)
            else if re_match_coordinates part then Inr (split_on CHR '','' part)
            else Inr coords) of
        Inl e \<Rightarrow> Inl e
      | Inr coords' \<Rightarrow>
          if coords' \<noteq> [] then float_pair lib coords'
          else extract_from_parts lib coords' parts)"

definition extract_coordinates_google_maps :: "'f pylib \<Rightarrow> string \<Rightarrow> error + ('f \<times> 'f) option" where
  "extract_coordinates_google_maps lib url =
     (case urlparse_path lib url of
        Inl e \<Rightarrow> Inl e
      | Inr path \<Rightarrow> extract_from_parts lib [] (split_on CHR ''/'' path))"

definition get_full_url :: "'f pylib \<Rightarrow> string \<Rightarrow> error + string" where
  "get_full_url lib short_url = requests_head_url lib short_url"

definition get_coordinates_from_short_url :: "'f pylib \<Rightarrow> string \<Rightarrow> error + ('f \<times> 'f) option" where
  "get_coordinates_from_short_url lib short_url =
     (case get_full_url lib short_url of
        Inl e \<Rightarrow> Inl e
      | Inr full_url \<Rightarrow> extract_coordinates_google_maps lib full_url)"

definition startswith :: "string \<Rightarrow> string \<Rightarrow> bool" where
  "startswith s p = (take (length p) s = p)"

definition get_coordinates_from_link :: "'f pylib \<Rightarrow> string \<Rightarrow> error + ('f \<times> 'f) option" where
  "get_coordinates_from_link lib url =
     (if startswith url ''https://'' then
        (if length url < 70 then get_coordinates_from_short_url lib url
         else extract_coordinates_google_maps lib url)
      else Inr None)"

section \<open>Searching a property for a key (core/db_functions.py)\<close>

definition isinstance_dict_or_list :: "pyval \<Rightarrow> bool" where
  "isinstance_dict_or_list v = (case v of PDict kvs \<Rightarrow> True | PList xs \<Rightarrow> True | _ \<Rightarrow> False)"

text \<open>
  \<open>recursive_search\<close>, with the values it appends to \<open>results\<close> as its result, in
  the order it appends them.
\<close>

fun recursive_search :: "pyval \<Rightarrow> string \<Rightarrow> pyval list" where
  "recursive_search (PDict kvs) target_key =
     concat (map (\<lambda>kv.
        (if fst kv = target_key then [snd kv] else []) @
        (if isinstance_dict_or_list (snd kv) then recursive_search (snd kv) target_key else []))
       kvs)"
| "recursive_search (PList xs) target_key = concat (map (\<lambda>item. recursive_search item target_key) xs)"
| "recursive_search d target_key = []"

text \<open>\<open>return results[0] if results else None\<close>\<close>

definition search_by_key :: "pyval \<Rightarrow> string \<Rightarrow> pyval" where
  "search_by_key dictionary k =
     (case recursive_search dictionary k of
        [] \<Rightarrow> PNone
      | r # _ \<Rightarrow> r)"

section \<open>The pull pass (models/notion.py)\<close>

text \<open>\<open>s[1:-2]\<close>: from the second character up to, and without, the last two.\<close>

definition slice_1_minus_2 :: "string \<Rightarrow> string" where
  "slice_1_minus_2 s = drop 1 (take (length s - 2) s)"

text \<open>\<open>str(item_coordinates)\<close> for a pair of floats.\<close>

definition str_of_pair :: "'f pylib \<Rightarrow> 'f \<times> 'f \<Rightarrow> string" where
  "str_of_pair lib p = ''('' @ str_of_float lib (fst p) @ '', '' @ str_of_float lib (snd p) @ '')''"

text \<open>\<open>str(item_coordinates)[1:-2]\<close>, the text the pull pass stores.\<close>

definition coordinates_text :: "'f pylib \<Rightarrow> 'f \<times> 'f \<Rightarrow> string" where
  "coordinates_text lib p = slice_1_minus_2 (str_of_pair lib p)"

text \<open>
  The resolver called on an attribute of the record: anything but a string has no
  \<open>startswith\<close>.
\<close>

definition resolve_attribute :: "'f pylib \<Rightarrow> pyval \<Rightarrow> error + ('f \<times> 'f) option" where
  "resolve_attribute lib v =
     (case v of
        PStr url \<Rightarrow> get_coordinates_from_link lib url
      | _ \<Rightarrow> Inl AttributeError)"

text \<open>The branch \<open>if key == "Location"\<close>.\<close>

definition pull_location :: "pyval \<Rightarrow> ModelPlaceCard \<Rightarrow> error + ModelPlaceCard" where
  "pull_location v pcard =
     (case getitem v ''select'' of
        Inl e \<Rightarrow> Inl e
      | Inr sel \<Rightarrow>
          if truthy sel then
            (case getitem sel ''name'' of
               Inl e \<Rightarrow> Inl e
             | Inr nm \<Rightarrow> Inr (pcard\<lparr>location := nm\<rparr>))
          else Inr (pcard\<lparr>location := PStr ''Not specified''\<rparr>))"

text \<open>The branch \<open>if key == "Google Map"\<close>; its resolver call has no \<open>try\<close>.\<close>

definition pull_google_map :: "'f pylib \<Rightarrow> pyval \<Rightarrow> ModelPlaceCard \<Rightarrow> error + ModelPlaceCard" where
  "pull_google_map lib v pcard =
     (let google_map_link = search_by_key v ''url''
      in if \<not> py_eq (google_map pcard) google_map_link then
           (let pcard1 = (if truthy google_map_link
                         then pcard\<lparr>google_map := google_map_link\<rparr> else pcard)
            in case resolve_attribute lib (google_map pcard1) of
                 Inl e \<Rightarrow> Inl e
               | Inr (Some item_coordinates) \<Rightarrow>
                   Inr (pcard1\<lparr>coordinates := PStr (coordinates_text lib item_coordinates)\<rparr>)
               | Inr None \<Rightarrow> Inr (pcard1\<lparr>google_map := google_map_link\<rparr>))
         else Inr pcard)"

text \<open>One turn of the loop over \<open>values.items()\<close>: the chain of \<open>if key == ...\<close>.\<close>

definition pull_property :: "'f pylib \<Rightarrow> string \<Rightarrow> pyval \<Rightarrow> ModelPlaceCard \<Rightarrow> error + ModelPlaceCard" where
  "pull_property lib k v pcard =
     (let c1 = (if k = ''Name'' then pcard\<lparr>Name := search_by_key v ''plain_text''\<rparr> else pcard);
          c2 = (if k = ''Type'' then c1\<lparr>type := search_by_key v ''name''\<rparr> else c1);
          c3 = (if k = ''ID'' then c2\<lparr>ID := search_by_key v ''number''\<rparr> else c2);
          c4 = (if k = ''Photo Google Drive'' then c3\<lparr>photo := search_by_key v ''url''\<rparr> else c3)
      in case (if k = ''Location'' then pull_location v c4 else Inr c4) of
           Inl e \<Rightarrow> Inl e
         | Inr c5 \<Rightarrow>
             (case (if k = ''Google Map'' then pull_google_map lib v c5 else Inr c5) of
                Inl e \<Rightarrow> Inl e
              | Inr c6 \<Rightarrow>
                  (let c7 = (if k = ''Phone Number''
                             then c6\<lparr>phone_number := search_by_key v ''plain_text''\<rparr> else c6);
                       c8 = (if k = ''WhatsApp Number''
                             then c7\<lparr>whatsapp := search_by_key v ''plain_text''\<rparr> else c7);
                       c9 = (if k = ''Hours of Operation''
                             then c8\<lparr>hours_of_operation := search_by_key v ''plain_text''\<rparr> else c8)
                   in Inr (if k = ''Owner / Manager''
                           then c9\<lparr>manager_phone_number := search_by_key v ''plain_text''\<rparr>
                           else c9))))"

fun pull_properties ::
  "'f pylib \<Rightarrow> (string \<times> pyval) list \<Rightarrow> ModelPlaceCard \<Rightarrow> error + ModelPlaceCard" where
  "pull_properties lib [] pcard = Inr pcard"
| "pull_properties lib ((k, v) # items) pcard =
     (case pull_property lib k v pcard of
        Inl e \<Rightarrow> Inl e
      | Inr pcard' \<Rightarrow> pull_properties lib items pcard')"

text \<open>
  The block \<open>if not model_place_card.coordinates and model_place_card.google_map\<close>,
  which stands inside the loop over the row's items. Its resolver call is inside a
  \<open>try\<close> whose \<open>except\<close> leaves \<open>item_coordinates\<close> at \<open>None\<close>.
\<close>

definition pull_missing_coordinates :: "'f pylib \<Rightarrow> ModelPlaceCard \<Rightarrow> ModelPlaceCard" where
  "pull_missing_coordinates lib pcard =
     (if \<not> truthy (coordinates pcard) \<and> truthy (google_map pcard) then
        (case (case resolve_attribute lib (google_map pcard) of
                 Inl e \<Rightarrow> None
               | Inr item \<Rightarrow> item) of
           Some item_coordinates \<Rightarrow> pcard\<lparr>coordinates := PStr (coordinates_text lib item_coordinates)\<rparr>
         | None \<Rightarrow> pcard\<lparr>coordinates := PStr ''Bad url''\<rparr>)
      else pcard)"

text \<open>
  One turn of the loop \<open>for keys, values in num.items()\<close>. \<open>values.items()\<close> raises
  \<open>AttributeError\<close> when the value under \<open>properties\<close> is not a dictionary.
\<close>

definition pull_item :: "'f pylib \<Rightarrow> string \<Rightarrow> pyval \<Rightarrow> ModelPlaceCard \<Rightarrow> error + ModelPlaceCard" where
  "pull_item lib keys vals pcard =
     (let c1 = (if keys = ''id'' then pcard\<lparr>id_page := vals\<rparr> else pcard)
      in case (if keys = ''properties'' then
                 (case vals of
                    PDict props \<Rightarrow> pull_properties lib props c1
                  | _ \<Rightarrow> Inl AttributeError)
               else Inr c1) of
           Inl e \<Rightarrow> Inl e
         | Inr c2 \<Rightarrow> Inr (pull_missing_coordinates lib c2))"

fun pull_items ::
  "'f pylib \<Rightarrow> (string \<times> pyval) list \<Rightarrow> ModelPlaceCard \<Rightarrow> error + ModelPlaceCard" where
  "pull_items lib [] pcard = Inr pcard"
| "pull_items lib ((keys, vals) # items) pcard =
     (case pull_item lib keys vals pcard of
        Inl e \<Rightarrow> Inl e
      | Inr pcard' \<Rightarrow> pull_items lib items pcard')"

text \<open>
  \<open>ModelPlaceCard()\<close>: no attribute is set. The key and the flags are not read
  before the INSERT gives them their values, so they stand at those values here.
\<close>

definition new_ModelPlaceCard :: ModelPlaceCard where
  "new_ModelPlaceCard =
     \<lparr>Name = PNone, id_key = 0, ID = PNone, id_page = PNone, type = PNone, photo = PNone,
      location = PNone, google_map = PNone, phone_number = PNone, whatsapp = PNone,
      hours_of_operation = PNone, coordinates = PNone, data_manager = PNone,
      manager_phone_number = PNone, is_new = False, is_updated = False\<rparr>"

text \<open>
  The INSERT of a new object: an attribute that is \<open>None\<close> is left out of the
  statement and the column takes its default, the empty string for every text
  column; the key is the next integer.
\<close>

definition column_default :: "pyval \<Rightarrow> pyval" where
  "column_default v = (if v = PNone then PStr [] else v)"

definition next_id_key :: "ModelPlaceCard list \<Rightarrow> nat" where
  "next_id_key cards = Suc (fold max (map id_key cards) 0)"

definition insert_card :: "ModelPlaceCard list \<Rightarrow> ModelPlaceCard \<Rightarrow> ModelPlaceCard list" where
  "insert_card cards pcard =
     cards @
     [pcard\<lparr>Name := column_default (Name pcard), id_key := next_id_key cards,
           ID := column_default (ID pcard), id_page := column_default (id_page pcard),
           type := column_default (type pcard), photo := column_default (photo pcard),
           location := column_default (location pcard),
           google_map := column_default (google_map pcard),
           phone_number := column_default (phone_number pcard),
           whatsapp := column_default (whatsapp pcard),
           hours_of_operation := column_default (hours_of_operation pcard),
           coordinates := column_default (coordinates pcard),
           data_manager := column_default (data_manager pcard),
           manager_phone_number := column_default (manager_phone_number pcard)\<rparr>]"

text \<open>\<open>query.filter_by(...).first()\<close>: the position of the first row that matches.\<close>

fun first_index :: "('a \<Rightarrow> bool) \<Rightarrow> 'a list \<Rightarrow> nat option" where
  "first_index P [] = None"
| "first_index P (x # xs) = (if P x then Some 0 else map_option Suc (first_index P xs))"

text \<open>
  The body of the loop \<open>for num in reversed(rows)\<close>, on the rows as the session
  sees them (a new object is inserted before the next query runs). A row whose id
  belongs to a record with \<open>is_updated\<close> is only logged.
\<close>

definition pull_row :: "'f pylib \<Rightarrow> ModelPlaceCard list \<Rightarrow> pyval \<Rightarrow> error + ModelPlaceCard list" where
  "pull_row lib cards num =
     (case getitem num ''id'' of
        Inl e \<Rightarrow> Inl e
      | Inr num_id \<Rightarrow>
          (let model_place_card = first_index (\<lambda>r. py_eq (id_page r) num_id \<and> \<not> is_updated r) cards;
               no_change_place_card = first_index (\<lambda>r. py_eq (id_page r) num_id \<and> is_updated r) cards;
               items = (case num of PDict kvs \<Rightarrow> kvs | _ \<Rightarrow> [])
           in case no_change_place_card of
                Some j \<Rightarrow> Inr cards
              | None \<Rightarrow>
                  (case model_place_card of
                     Some i \<Rightarrow>
                       (case pull_items lib items (cards ! i) of
                          Inl e \<Rightarrow> Inl e
                        | Inr pcard' \<Rightarrow> Inr (cards[i := pcard']))
                   | None \<Rightarrow>
                       (case pull_items lib items new_ModelPlaceCard of
                          Inl e \<Rightarrow> Inl e
                        | Inr pcard' \<Rightarrow> Inr (insert_card cards pcard')))))"

text \<open>
  Writing the session to the table. The flush writes, for a row that was in the
  table, the columns whose attribute has changed, and for a new row every column.
  The driver binds \<open>None\<close>, text, and integers of 64 bits (a Boolean is the integer
  1 or 0); it raises on a list, a dictionary or a larger integer. A text column
  returns what was written as text: an integer as its decimal digits.
\<close>

definition storable :: "pyval \<Rightarrow> bool" where
  "storable v =
     (case v of
        PInt n \<Rightarrow> - (2 ^ 63) \<le> n \<and> n < 2 ^ 63
      | PList xs \<Rightarrow> False
      | PDict kvs \<Rightarrow> False
      | _ \<Rightarrow> True)"

definition stored_value :: "pyval \<Rightarrow> pyval" where
  "stored_value v =
     (case v of
        PInt n \<Rightarrow> PStr (str_int n)
      | PBool b \<Rightarrow> PStr (if b then ''1'' else ''0'')
      | _ \<Rightarrow> v)"

definition text_columns :: "ModelPlaceCard \<Rightarrow> pyval list" where
  "text_columns r =
     [Name r, ID r, id_page r, type r, photo r, location r, google_map r, phone_number r,
      whatsapp r, hours_of_operation r, coordinates r, data_manager r, manager_phone_number r]"

definition changed_values :: "ModelPlaceCard \<Rightarrow> ModelPlaceCard \<Rightarrow> pyval list" where
  "changed_values old new =
     map snd (filter (\<lambda>on. snd on \<noteq> fst on) (zip (text_columns old) (text_columns new)))"

definition pending_values :: "ModelPlaceCard list \<Rightarrow> ModelPlaceCard list \<Rightarrow> pyval list" where
  "pending_values db cards =
     concat (map (\<lambda>on. changed_values (fst on) (snd on)) (zip db cards)) @
     concat (map text_columns (drop (length db) cards))"

definition flush_fails :: "ModelPlaceCard list \<Rightarrow> ModelPlaceCard list \<Rightarrow> bool" where
  "flush_fails db cards = list_ex (\<lambda>v. \<not> storable v) (pending_values db cards)"

definition written :: "pyval \<Rightarrow> pyval \<Rightarrow> pyval" where
  "written old new = (if new = old then old else stored_value new)"

definition committed_card :: "ModelPlaceCard \<Rightarrow> ModelPlaceCard \<Rightarrow> ModelPlaceCard" where
  "committed_card old new =
     new\<lparr>Name := written (Name old) (Name new), ID := written (ID old) (ID new),
         id_page := written (id_page old) (id_page new), type := written (type old) (type new),
         photo := written (photo old) (photo new),
         location := written (location old) (location new),
         google_map := written (google_map old) (google_map new),
         phone_number := written (phone_number old) (phone_number new),
         whatsapp := written (whatsapp old) (whatsapp new),
         hours_of_operation := written (hours_of_operation old) (hours_of_operation new),
         coordinates := written (coordinates old) (coordinates new),
         data_manager := written (data_manager old) (data_manager new),
         manager_phone_number := written (manager_phone_number old) (manager_phone_number new)\<rparr>"

definition committed_new :: "ModelPlaceCard \<Rightarrow> ModelPlaceCard" where
  "committed_new new =
     new\<lparr>Name := stored_value (Name new), ID := stored_value (ID new),
         id_page := stored_value (id_page new), type := stored_value (type new),
         photo := stored_value (photo new), location := stored_value (location new),
         google_map := stored_value (google_map new),
         phone_number := stored_value (phone_number new),
         whatsapp := stored_value (whatsapp new),
         hours_of_operation := stored_value (hours_of_operation new),
         coordinates := stored_value (coordinates new),
         data_manager := stored_value (data_manager new),
         manager_phone_number := stored_value (manager_phone_number new)\<rparr>"

text \<open>
  The table after the commit of a session that holds \<open>cards\<close>, when the table
  before the pass was \<open>db\<close>: the rows of \<open>db\<close> come first, the new rows after
  them.
\<close>

definition committed_cards :: "ModelPlaceCard list \<Rightarrow> ModelPlaceCard list \<Rightarrow> ModelPlaceCard list" where
  "committed_cards db cards =
     map (\<lambda>on. committed_card (fst on) (snd on)) (zip db cards) @
     map committed_new (drop (length db) cards)"

text \<open>
  The loop \<open>for num in reversed(rows)\<close>. The first query of a turn flushes what
  the turns before it have left in the session, after \<open>num["id"]\<close> has been
  evaluated for its filter; \<open>db\<close> is the table before the pass.
\<close>

fun pull_rows ::
  "'f pylib \<Rightarrow> ModelPlaceCard list \<Rightarrow> ModelPlaceCard list \<Rightarrow> pyval list
     \<Rightarrow> error + ModelPlaceCard list" where
  "pull_rows lib db cards [] = Inr cards"
| "pull_rows lib db cards (num # nums) =
     (case getitem num ''id'' of
        Inl e \<Rightarrow> Inl e
      | Inr num_id \<Rightarrow>
          if flush_fails db cards then Inl DatabaseError
          else (case pull_row lib cards num of
                  Inl e \<Rightarrow> Inl e
                | Inr cards' \<Rightarrow> pull_rows lib db cards' nums))"

record pull_result =
  db_after_pull :: "ModelPlaceCard list"
  pull_logged_error :: "error option"

text \<open>
  \<open>Notion._scheduled_task_from_Notion\<close>: one commit after the last row; any
  exception, that of the commit included, is logged and the session rolled back,
  which leaves the table as it was before the pass.
\<close>

definition scheduled_task_from_Notion ::
  "'f pylib \<Rightarrow> 'w notion_client \<Rightarrow> ModelPlaceCard list \<Rightarrow> 'w \<Rightarrow> error + pull_result" where
  "scheduled_task_from_Notion lib c db w =
     (case read_all_rows c w of
        Inl e \<Rightarrow> Inr \<lparr>db_after_pull = db, pull_logged_error = Some e\<rparr>
      | Inr rows \<Rightarrow>
          (case pull_rows lib db db (rev rows) of
             Inl e \<Rightarrow> Inr \<lparr>db_after_pull = db, pull_logged_error = Some e\<rparr>
           | Inr cards \<Rightarrow>
               if flush_fails db cards
               then Inr \<lparr>db_after_pull = db, pull_logged_error = Some DatabaseError\<rparr>
               else Inr \<lparr>db_after_pull = committed_cards db cards, pull_logged_error = None\<rparr>))"

section \<open>Creating a record from the chat (bot/telegram_bot.py)\<close>

definition is_space :: "char \<Rightarrow> bool" where
  "is_space c = ((of_char c :: nat) \<in> {9, 10, 11, 12, 13, 28, 29, 30, 31, 32, 133, 160})"

definition is_ascii_alnum :: "char \<Rightarrow> bool" where
  "is_ascii_alnum c =
     (let n = (of_char c :: nat)
      in (48 \<le> n \<and> n \<le> 57) \<or> (65 \<le> n \<and> n \<le> 90) \<or> (97 \<le> n \<and> n \<le> 122))"

text \<open>\<open>validate_name\<close>: \<open>re.match(r"^[a-zA-Z0-9\s.,:;!?'-]+$", name)\<close>\<close>

definition validate_name :: "string \<Rightarrow> bool" where
  "validate_name name =
     (name \<noteq> [] \<and>
      list_all (\<lambda>c. is_ascii_alnum c \<or> is_space c \<or> c \<in> set ''.,:;!?-'' \<or> c = char_of (39 :: nat)) name)"

text \<open>
  The table after \<open>handle_company_name\<close>. An invalid name, several records of
  that name and one record of that name leave the table as it is; with no record
  of that name the handler adds \<open>ModelPlaceCard(Name=company_name)\<close> and commits.
\<close>

definition handle_company_name :: "string \<Rightarrow> ModelPlaceCard list \<Rightarrow> ModelPlaceCard list" where
  "handle_company_name company_name db =
     (if \<not> validate_name company_name then db
      else
        (let companies = filter (\<lambda>r. py_eq (Name r) (PStr company_name)) db
         in if companies \<noteq> [] \<and> 1 < length companies then db
            else if companies \<noteq> [] then db
            else insert_card db (new_ModelPlaceCard\<lparr>Name := PStr company_name\<rparr>)))"

section \<open>Stand-ins for the external services\<close>

text \<open>
  The theorems below hold for every client and every library. To run the passes
  on concrete tables they are given these stand-ins.

  \<open>notion_table\<close> is a Notion table held as the list of its pages: a query returns
  the pages, \<open>create\<close> appends a page under a new id, \<open>update\<close> replaces the
  properties of the page of that id. \<open>notion_rejecting nm\<close> is the same table,
  except that it answers a page named \<open>nm\<close> with an error.
\<close>

definition make_page :: "pyval \<Rightarrow> (string \<times> pyval) list \<Rightarrow> pyval" where
  "make_page page_id properties =
     PDict [(''object'', PStr ''page''), (''id'', page_id), (''properties'', PDict properties)]"

definition notion_table :: "pyval list notion_client" where
  "notion_table =
     \<lparr>databases_query = (\<lambda>w. Inr w),
      pages_update = (\<lambda>page_id properties w.
         (Inr (make_page page_id properties),
          map (\<lambda>page. if getitem page ''id'' = Inr page_id
                       then make_page page_id properties else page) w)),
      pages_create = (\<lambda>properties w.
         (let page = make_page (PStr (''page-'' @ digits_of (length w))) properties
          in (Inr page, w @ [page])))\<rparr>"

definition names_page :: "string \<Rightarrow> (string \<times> pyval) list \<Rightarrow> bool" where
  "names_page nm properties =
     (map_of properties ''Name'' = Some (PDict [(''title'', PList [text_item (PStr nm)])]))"

definition notion_rejecting :: "string \<Rightarrow> pyval list notion_client" where
  "notion_rejecting nm =
     \<lparr>databases_query = (\<lambda>w. Inr w),
      pages_update = (\<lambda>page_id properties w.
         if names_page nm properties then (Inl RequestError, w)
         else pages_update notion_table page_id properties w),
      pages_create = (\<lambda>properties w.
         if names_page nm properties then (Inl RequestError, w)
         else pages_create notion_table properties w)\<rparr>"

text \<open>
  \<open>pylib_plain\<close> stands for the library on plain input. A float is held as its
  decimal text. The path is that of an address \<open>https://host/path\<close> with an optional
  query and fragment; \<open>float\<close> accepts a sign, digits and one point, which covers
  the texts evaluated below (decimal numbers, and words without any digit, which
  \<open>float\<close> rejects); the rendering of such a number is its text when that text is
  the shortest one, as for \<open>9.748917\<close>; a short link is looked up in a table of
  redirects, and the request fails for a link that is not in it.
\<close>

definition plain_path :: "string \<Rightarrow> error + string" where
  "plain_path url =
     (let rest = (if startswith url ''https:'' then drop 6 url else url);
          netloc = (if startswith rest ''//''
                    then takeWhile (\<lambda>c. c \<notin> set ''/?#'') (drop 2 rest) else []);
          rest2 = (if startswith rest ''//''
                   then dropWhile (\<lambda>c. c \<notin> set ''/?#'') (drop 2 rest) else rest);
          p = takeWhile (\<lambda>c. c \<noteq> CHR ''?'') (takeWhile (\<lambda>c. c \<noteq> CHR ''#'') rest2);
          last_segment = rev (takeWhile (\<lambda>c. c \<noteq> CHR ''/'') (rev p));
          before = rev (dropWhile (\<lambda>c. c \<noteq> CHR ''/'') (rev p))
      in if (CHR ''['' \<in> set netloc) \<noteq> (CHR '']'' \<in> set netloc) then Inl ValueError
         else Inr (before @ takeWhile (\<lambda>c. c \<noteq> CHR '';'') last_segment))"

definition plain_float :: "string \<Rightarrow> string option" where
  "plain_float s =
     (let body = (case s of [] \<Rightarrow> s | c # cs \<Rightarrow> if c = CHR ''-'' \<or> c = CHR ''+'' then cs else s);
          whole = takeWhile is_digit body;
          rest = dropWhile is_digit body
      in case rest of
           [] \<Rightarrow> if whole \<noteq> [] then Some s else None
         | c # frac \<Rightarrow>
             if c = CHR ''.'' \<and> list_all is_digit frac \<and> (whole \<noteq> [] \<or> frac \<noteq> [])
             then Some s else None)"

definition pylib_plain :: "(string \<times> string) list \<Rightarrow> string pylib" where
  "pylib_plain redirects =
     \<lparr>urlparse_path = plain_path,
      float_of_str = plain_float,
      str_of_float = (\<lambda>x. x),
      requests_head_url = (\<lambda>u. case map_of redirects u of None \<Rightarrow> Inl RequestError | Some full \<Rightarrow> Inr full)\<rparr>"

section \<open>Example tables\<close>

text \<open>A row with every text column at its default and no flag set.\<close>

definition blank_card :: ModelPlaceCard where
  "blank_card =
     \<lparr>Name = PStr [], id_key = 0, ID = PStr [], id_page = PStr [], type = PStr [],
      photo = PStr [], location = PStr [], google_map = PStr [], phone_number = PStr [],
      whatsapp = PStr [], hours_of_operation = PStr [], coordinates = PStr [],
      data_manager = PStr [], manager_phone_number = PStr [],
      is_new = False, is_updated = False\<rparr>"

definition cafe_a :: ModelPlaceCard where
  "cafe_a = blank_card\<lparr>Name := PStr ''Cafe A'', id_key := 1, is_new := True\<rparr>"

definition cafe_b :: ModelPlaceCard where
  "cafe_b = blank_card\<lparr>Name := PStr ''Cafe B'', id_key := 2, is_updated := True\<rparr>"

text \<open>A record with both flags cleared, as a successful push leaves it.\<close>

definition clear_flags :: "ModelPlaceCard \<Rightarrow> ModelPlaceCard" where
  "clear_flags r = r\<lparr>is_new := False, is_updated := False\<rparr>"

text \<open>
  A record that mirrors the Notion page \<open>p1\<close>, and pages of that id as the API
  lists them: one whose title holds a name, one whose title is empty.
\<close>

definition cafe_x :: ModelPlaceCard where
  "cafe_x = blank_card\<lparr>Name := PStr ''Cafe X'', id_key := 1, id_page := PStr ''p1''\<rparr>"

definition title_property :: "string \<Rightarrow> pyval" where
  "title_property nm =
     PDict [(''id'', PStr ''title''), (''type'', PStr ''title''),
            (''title'', PList [PDict [(''type'', PStr ''text''), (''plain_text'', PStr nm)]])]"

definition empty_title_property :: pyval where
  "empty_title_property =
     PDict [(''id'', PStr ''title''), (''type'', PStr ''title''), (''title'', PList [])]"

definition page_p1 :: "pyval \<Rightarrow> pyval" where
  "page_p1 name_property =
     PDict [(''object'', PStr ''page''), (''id'', PStr ''p1''),
            (''properties'', PDict [(''Name'', name_property)])]"

text \<open>
  Two expanded map links of more than 70 characters: one with a latitude and a
  longitude after the \<open>@\<close>, one with a word there.
\<close>

definition long_link :: string where
  "long_link = ''https://www.google.com/maps/place/Cafe+X/@9.748917,-83.753428,15z/data=!3m1!4b1''"

definition bad_link :: string where
  "bad_link = ''https://www.google.com/maps/place/Cafe+X/@abc/data=!3m1!4b1!4m6!3m5!1s0x0:0x0''"

section \<open>Properties of the push pass\<close>

lemma upsert_returns_dict:
  "update_or_insert_row c rid data w = (Inr r, w') \<Longrightarrow> isinstance_Dict r"
  by (auto simp: update_or_insert_row_def log_response_id_def isinstance_Dict_def
      split: sum.splits option.splits if_splits prod.splits pyval.splits)

lemma clear_flags_unselected: "\<not> selected_for_push r \<Longrightarrow> clear_flags r = r"
  by (simp add: clear_flags_def selected_for_push_def)

lemma push_rows_ok:
  "push_rows c db w = (Inr rows', w', calls) \<Longrightarrow>
     rows' = map clear_flags db \<and>
     calls = map (\<lambda>r. (id_page r, to_dict r)) (filter selected_for_push db)"
proof (induction db arbitrary: w rows' w' calls)
  case Nil
  then show ?case by simp
next
  case (Cons row db)
  show ?case
  proof (cases "selected_for_push row")
    case True
    from Cons.prems True obtain response w1 rs cs where
      u: "update_or_insert_row c (id_page row) (to_dict row) w = (Inr response, w1)"
      and rest: "push_rows c db w1 = (Inr rs, w', cs)"
      and out: "rows' = (if isinstance_Dict response then clear_flags row else row) # rs"
               "calls = (id_page row, to_dict row) # cs"
      by (auto simp: clear_flags_def Let_def split: sum.splits prod.splits)
    from upsert_returns_dict [OF u] have "isinstance_Dict response" .
    with Cons.IH [OF rest] out True show ?thesis by simp
  next
    case False
    from Cons.prems False obtain rs where
      rest: "push_rows c db w = (Inr rs, w', calls)" and out: "rows' = row # rs"
      by (auto split: sum.splits prod.splits)
    with Cons.IH [OF rest] False show ?thesis by (simp add: clear_flags_unselected)
  qed
qed

lemma push_rows_none_selected:
  "\<forall>r \<in> set db. \<not> selected_for_push r \<Longrightarrow> push_rows c db w = (Inr db, w, [])"
  by (induction db) auto

lemma push_rows_stops:
  assumes "push_rows c before w = (Inr before', w1, calls)"
    and "selected_for_push row"
    and "update_or_insert_row c (id_page row) (to_dict row) w1 = (Inl e, w2)"
  shows "push_rows c (before @ row # rest) w = (Inl e, w2, calls @ [(id_page row, to_dict row)])"
  using assms
proof (induction before arbitrary: w before' calls)
  case Nil
  then show ?case by simp
next
  case (Cons b before)
  show ?case
  proof (cases "selected_for_push b")
    case True
    from Cons.prems(1) True obtain response wb rs cs where
      u: "update_or_insert_row c (id_page b) (to_dict b) w = (Inr response, wb)"
      and rest: "push_rows c before wb = (Inr rs, w1, cs)"
      and out: "calls = (id_page b, to_dict b) # cs"
      by (auto simp: Let_def split: sum.splits prod.splits)
    from Cons.IH [OF rest Cons.prems(2,3)] u out True show ?thesis by (simp add: Let_def)
  next
    case False
    from Cons.prems(1) False obtain rs where
      rest: "push_rows c before w = (Inr rs, w1, calls)"
      by (auto split: sum.splits prod.splits)
    from Cons.IH [OF rest Cons.prems(2,3)] False show ?thesis by simp
  qed
qed

lemma push_pass_returns: "\<exists>res. scheduled_task_to_Notion c db w = Inr res"
  by (auto simp: scheduled_task_to_Notion_def split: sum.splits prod.splits)

lemma push_pass_table:
  "scheduled_task_to_Notion c db w = Inr res \<Longrightarrow>
     db_after res = db \<or> db_after res = map clear_flags db"
  by (auto simp: scheduled_task_to_Notion_def split: sum.splits prod.splits dest: push_rows_ok)

text \<open>
  C1: a table of two records with a flag set, pushed through a client that
  answers the first one, Cafe A, with an error and would accept the second.
  The exception of the first upsert ends the loop: the pass logs it and returns,
  the only upsert call made is that for Cafe A, Cafe B is never attempted, and
  nothing is committed. Pushed on its own through the same client, Cafe B is
  created and its flag cleared.
\<close>

theorem push_failure_aborts_batch:
  "scheduled_task_to_Notion (notion_rejecting ''Cafe A'') [cafe_a, cafe_b] [] =
     Inr \<lparr>db_after = [cafe_a, cafe_b], world_after = [],
          upsert_calls = [(id_page cafe_a, to_dict cafe_a)],
          logged_error = Some RequestError\<rparr>
   \<and> selected_for_push cafe_b
   \<and> (id_page cafe_b, to_dict cafe_b) \<notin> set [(id_page cafe_a, to_dict cafe_a)]
   \<and> scheduled_task_to_Notion (notion_rejecting ''Cafe A'') [cafe_b] [] =
     Inr \<lparr>db_after = [clear_flags cafe_b],
          world_after =
            [make_page (PStr ''page-0'') [(''Name'', PDict [(''title'', PList [text_item (PStr ''Cafe B'')])])]],
          upsert_calls = [(id_page cafe_b, to_dict cafe_b)],
          logged_error = None\<rparr>"
  by code_simp

text \<open>
  C2, as the code has it. The push pass never assigns \<open>id_page\<close>: whatever the
  client answers, every record has after the pass the \<open>id_page\<close> it had before,
  and differs from what it was in nothing but the two flags. So a record with an
  empty \<open>id_page\<close> whose push created an external row still has an empty
  \<open>id_page\<close>, and no push ever changes an \<open>id_page\<close>.
\<close>

theorem push_never_assigns_id_page:
  assumes "scheduled_task_to_Notion c db w = Inr res"
  shows "map id_page (db_after res) = map id_page db
         \<and> map clear_flags (db_after res) = map clear_flags db"
proof -
  have idp: "map id_page (map clear_flags db) = map id_page db"
    by (simp add: clear_flags_def)
  have idem: "map clear_flags (map clear_flags db) = map clear_flags db"
    by (simp add: clear_flags_def)
  from push_pass_table [OF assms] show ?thesis
    using idp idem by auto
qed

theorem push_never_assigns_id_page_witness:
  "scheduled_task_to_Notion notion_table [cafe_a, cafe_b] [] =
     Inr \<lparr>db_after = [clear_flags cafe_a, clear_flags cafe_b],
          world_after =
            [make_page (PStr ''page-0'') [(''Name'', PDict [(''title'', PList [text_item (PStr ''Cafe A'')])])],
             make_page (PStr ''page-1'') [(''Name'', PDict [(''title'', PList [text_item (PStr ''Cafe B'')])])]],
          upsert_calls = [(id_page cafe_a, to_dict cafe_a), (id_page cafe_b, to_dict cafe_b)],
          logged_error = None\<rparr>
   \<and> map id_page [clear_flags cafe_a, clear_flags cafe_b] = map id_page [cafe_a, cafe_b]
   \<and> map clear_flags [clear_flags cafe_a, clear_flags cafe_b] = map clear_flags [cafe_a, cafe_b]"
proof -
  have run: "scheduled_task_to_Notion notion_table [cafe_a, cafe_b] [] =
     Inr \<lparr>db_after = [clear_flags cafe_a, clear_flags cafe_b],
          world_after =
            [make_page (PStr ''page-0'') [(''Name'', PDict [(''title'', PList [text_item (PStr ''Cafe A'')])])],
             make_page (PStr ''page-1'') [(''Name'', PDict [(''title'', PList [text_item (PStr ''Cafe B'')])])]],
          upsert_calls = [(id_page cafe_a, to_dict cafe_a), (id_page cafe_b, to_dict cafe_b)],
          logged_error = None\<rparr>"
    by code_simp
  from push_never_assigns_id_page [OF run] run show ?thesis by simp
qed

theorem push_leaves_id_page_empty_counterexample:
  "scheduled_task_to_Notion notion_table [cafe_a] [] =
     Inr \<lparr>db_after = [clear_flags cafe_a],
          world_after =
            [make_page (PStr ''page-0'') [(''Name'', PDict [(''title'', PList [text_item (PStr ''Cafe A'')])])]],
          upsert_calls = [(id_page cafe_a, to_dict cafe_a)],
          logged_error = None\<rparr>
   \<and> id_page cafe_a = PStr []
   \<and> id_page (clear_flags cafe_a) = PStr []
   \<and> id_page (clear_flags cafe_a) \<noteq> PStr ''page-0''"
  by code_simp

lemma committed_push_leaves_nothing:
  assumes "scheduled_task_to_Notion c db w = Inr res"
    and "logged_error res = None"
  shows "upsert_calls res = map (\<lambda>r. (id_page r, to_dict r)) (filter selected_for_push db)
         \<and> scheduled_task_to_Notion c (db_after res) (world_after res) =
             Inr \<lparr>db_after = db_after res, world_after = world_after res,
                  upsert_calls = [], logged_error = None\<rparr>"
proof -
  from assms obtain rows' w' calls where
    run: "push_rows c db w = (Inr rows', w', calls)"
    and res: "res = \<lparr>db_after = rows', world_after = w', upsert_calls = calls, logged_error = None\<rparr>"
    by (auto simp: scheduled_task_to_Notion_def split: sum.splits prod.splits)
  from push_rows_ok [OF run] have rows': "rows' = map clear_flags db"
    and calls: "calls = map (\<lambda>r. (id_page r, to_dict r)) (filter selected_for_push db)"
    by simp_all
  have "\<forall>r \<in> set rows'. \<not> selected_for_push r"
    by (simp add: rows' clear_flags_def selected_for_push_def)
  then have "push_rows c rows' w' = (Inr rows', w', [])"
    by (rule push_rows_none_selected)
  then show ?thesis
    using res calls by (simp add: scheduled_task_to_Notion_def)
qed

text \<open>
  C3: the push pass run twice in succession on the table of Cafe B and Cafe A,
  through the client that answers Cafe A with an error. The first pass creates
  the page of Cafe B and is then ended by the exception of Cafe A before its
  commit, so the table is unchanged: Cafe B keeps its flag and its empty
  \<open>id_page\<close>. The second pass, with no edit in between, creates a page for Cafe B
  again: the external table holds two pages for the one record.
\<close>

theorem push_twice_duplicates_row:
  "scheduled_task_to_Notion (notion_rejecting ''Cafe A'') [cafe_b, cafe_a] [] =
     Inr \<lparr>db_after = [cafe_b, cafe_a],
          world_after =
            [make_page (PStr ''page-0'') [(''Name'', PDict [(''title'', PList [text_item (PStr ''Cafe B'')])])]],
          upsert_calls = [(id_page cafe_b, to_dict cafe_b), (id_page cafe_a, to_dict cafe_a)],
          logged_error = Some RequestError\<rparr>
   \<and> scheduled_task_to_Notion (notion_rejecting ''Cafe A'') [cafe_b, cafe_a]
       [make_page (PStr ''page-0'') [(''Name'', PDict [(''title'', PList [text_item (PStr ''Cafe B'')])])]] =
     Inr \<lparr>db_after = [cafe_b, cafe_a],
          world_after =
            [make_page (PStr ''page-0'') [(''Name'', PDict [(''title'', PList [text_item (PStr ''Cafe B'')])])],
             make_page (PStr ''page-1'') [(''Name'', PDict [(''title'', PList [text_item (PStr ''Cafe B'')])])]],
          upsert_calls = [(id_page cafe_b, to_dict cafe_b), (id_page cafe_a, to_dict cafe_a)],
          logged_error = Some RequestError\<rparr>
   \<and> length (filter selected_for_push [cafe_b, cafe_a]) = 2"
  by code_simp

section \<open>Properties of the pull pass\<close>

lemma first_index_Some:
  "first_index P xs = Some i \<Longrightarrow> i < length xs \<and> P (xs ! i)"
proof (induction xs arbitrary: i)
  case Nil
  then show ?case by simp
next
  case (Cons x xs)
  then show ?case by (cases "P x") (auto split: if_splits)
qed

lemma first_index_None: "(first_index P xs = None) = (\<forall>x \<in> set xs. \<not> P x)"
  by (induction xs) auto

lemma pull_location_flags:
  "pull_location v c = Inr c' \<Longrightarrow> is_new c' = is_new c \<and> is_updated c' = is_updated c"
  by (auto simp: pull_location_def split: sum.splits if_splits)

lemma pull_google_map_flags:
  "pull_google_map lib v c = Inr c' \<Longrightarrow> is_new c' = is_new c \<and> is_updated c' = is_updated c"
  by (auto simp: pull_google_map_def Let_def split: sum.splits if_splits option.splits)

lemma pull_missing_coordinates_flags:
  "is_new (pull_missing_coordinates lib c) = is_new c \<and>
   is_updated (pull_missing_coordinates lib c) = is_updated c"
  by (simp add: pull_missing_coordinates_def split: option.splits)

lemma pull_property_flags:
  assumes "pull_property lib k v c = Inr c'"
  shows "is_new c' = is_new c \<and> is_updated c' = is_updated c"
proof -
  consider (loc) "k = ''Location''" | (gm) "k = ''Google Map''"
    | (other) "k \<noteq> ''Location''" "k \<noteq> ''Google Map''" by blast
  then show ?thesis
  proof cases
    case loc
    with assms obtain c5 where "pull_location v c = Inr c5" "c' = c5"
      by (auto simp: pull_property_def Let_def split: sum.splits)
    then show ?thesis using pull_location_flags by blast
  next
    case gm
    with assms obtain c6 where "pull_google_map lib v c = Inr c6" "c' = c6"
      by (auto simp: pull_property_def Let_def split: sum.splits)
    then show ?thesis using pull_google_map_flags by blast
  next
    case other
    with assms show ?thesis
      by (auto simp: pull_property_def Let_def split: if_splits)
  qed
qed

lemma pull_properties_flags:
  "pull_properties lib items c = Inr c' \<Longrightarrow> is_new c' = is_new c \<and> is_updated c' = is_updated c"
proof (induction items arbitrary: c)
  case Nil
  then show ?case by simp
next
  case (Cons kv items)
  obtain k v where kv: "kv = (k, v)" by (cases kv)
  from Cons.prems kv obtain c1 where
    s: "pull_property lib k v c = Inr c1" and r: "pull_properties lib items c1 = Inr c'"
    by (auto split: sum.splits)
  from pull_property_flags [OF s] Cons.IH [OF r] show ?case by simp
qed

lemma pull_item_flags:
  "pull_item lib k v c = Inr c' \<Longrightarrow> is_new c' = is_new c \<and> is_updated c' = is_updated c"
  by (auto simp: pull_item_def Let_def pull_missing_coordinates_flags
      split: sum.splits if_splits pyval.splits dest: pull_properties_flags)

lemma pull_items_flags:
  "pull_items lib items c = Inr c' \<Longrightarrow> is_new c' = is_new c \<and> is_updated c' = is_updated c"
proof (induction items arbitrary: c)
  case Nil
  then show ?case by simp
next
  case (Cons kv items)
  obtain k v where kv: "kv = (k, v)" by (cases kv)
  from Cons.prems kv obtain c1 where
    s: "pull_item lib k v c = Inr c1" and r: "pull_items lib items c1 = Inr c'"
    by (auto split: sum.splits)
  from pull_item_flags [OF s] Cons.IH [OF r] show ?case by simp
qed

lemma insert_card_shape:
  "length (insert_card cards c) = Suc (length cards)
   \<and> (\<forall>i < length cards. insert_card cards c ! i = cards ! i)
   \<and> is_new (insert_card cards c ! length cards) = is_new c
   \<and> is_updated (insert_card cards c ! length cards) = is_updated c"
  by (simp add: insert_card_def nth_append)

lemma pull_row_cases:
  assumes "pull_row lib cards num = Inr cards'"
  shows "cards' = cards
         \<or> (\<exists>i c'. i < length cards \<and> \<not> is_updated (cards ! i)
               \<and> is_new c' = is_new (cards ! i) \<and> is_updated c' = is_updated (cards ! i)
               \<and> cards' = cards[i := c'])
         \<or> (\<exists>c'. \<not> is_new c' \<and> \<not> is_updated c' \<and> cards' = insert_card cards c')"
proof -
  from assms obtain num_id where nid: "getitem num ''id'' = Inr num_id"
    by (auto simp: pull_row_def split: sum.splits)
  let ?items = "case num of PDict kvs \<Rightarrow> kvs | _ \<Rightarrow> []"
  let ?m = "first_index (\<lambda>r. py_eq (id_page r) num_id \<and> \<not> is_updated r) cards"
  let ?n = "first_index (\<lambda>r. py_eq (id_page r) num_id \<and> is_updated r) cards"
  show ?thesis
  proof (cases ?n)
    case (Some j)
    with assms nid have "cards' = cards" by (simp add: pull_row_def)
    then show ?thesis by simp
  next
    case None
    show ?thesis
    proof (cases ?m)
      case (Some i)
      from first_index_Some [OF Some] have i: "i < length cards" "\<not> is_updated (cards ! i)"
        by simp_all
      from assms nid None Some obtain c' where
        p: "pull_items lib ?items (cards ! i) = Inr c'" and out: "cards' = cards[i := c']"
        by (auto simp: pull_row_def split: sum.splits)
      from pull_items_flags [OF p] i out show ?thesis by blast
    next
      case no_model: None
      from assms nid None no_model obtain c' where
        p: "pull_items lib ?items new_ModelPlaceCard = Inr c'" and out: "cards' = insert_card cards c'"
        by (auto simp: pull_row_def split: sum.splits)
      from pull_items_flags [OF p] have "\<not> is_new c' \<and> \<not> is_updated c'"
        by (simp add: new_ModelPlaceCard_def)
      with out show ?thesis by blast
    qed
  qed
qed

lemma pull_row_updated_kept:
  assumes "pull_row lib cards num = Inr cards'"
  shows "length cards \<le> length cards'
         \<and> (\<forall>i < length cards. is_updated (cards ! i) \<longrightarrow> cards' ! i = cards ! i)"
  using pull_row_cases [OF assms] insert_card_shape
  by (auto simp: nth_list_update)

lemma pull_row_flags:
  assumes "pull_row lib cards num = Inr cards'"
  shows "length cards \<le> length cards'
         \<and> (\<forall>i < length cards. is_new (cards' ! i) = is_new (cards ! i)
                              \<and> is_updated (cards' ! i) = is_updated (cards ! i))
         \<and> (\<forall>i. length cards \<le> i \<longrightarrow> i < length cards'
                \<longrightarrow> \<not> is_new (cards' ! i) \<and> \<not> is_updated (cards' ! i))"
proof -
  from pull_row_cases [OF assms] consider
    (same) "cards' = cards"
    | (upd) i c' where "i < length cards" "is_new c' = is_new (cards ! i)"
        "is_updated c' = is_updated (cards ! i)" "cards' = cards[i := c']"
    | (ins) c' where "\<not> is_new c'" "\<not> is_updated c'" "cards' = insert_card cards c'"
    by blast
  then show ?thesis
  proof cases
    case same
    then show ?thesis by simp
  next
    case upd
    then show ?thesis by (auto simp: nth_list_update)
  next
    case ins
    note sh = insert_card_shape [of cards c']
    have len: "length cards \<le> length cards'" using ins(3) sh by simp
    have old: "\<forall>i < length cards. is_new (cards' ! i) = is_new (cards ! i)
                              \<and> is_updated (cards' ! i) = is_updated (cards ! i)"
      using ins(3) sh by simp
    have new: "\<forall>i. length cards \<le> i \<longrightarrow> i < length cards'
                \<longrightarrow> \<not> is_new (cards' ! i) \<and> \<not> is_updated (cards' ! i)"
    proof (intro allI impI)
      fix i assume "length cards \<le> i" "i < length cards'"
      then have "i = length cards" using ins(3) sh by simp
      then show "\<not> is_new (cards' ! i) \<and> \<not> is_updated (cards' ! i)"
        using ins sh by simp
    qed
    from len old new show ?thesis by simp
  qed
qed

lemma pull_rows_updated_kept:
  "pull_rows lib db0 cards nums = Inr cards' \<Longrightarrow>
     length cards \<le> length cards'
     \<and> (\<forall>i < length cards. is_updated (cards ! i) \<longrightarrow> cards' ! i = cards ! i)"
proof (induction nums arbitrary: cards)
  case Nil
  then show ?case by simp
next
  case (Cons num nums)
  from Cons.prems obtain mid where
    s: "pull_row lib cards num = Inr mid" and r: "pull_rows lib db0 mid nums = Inr cards'"
    by (auto split: sum.splits if_splits)
  from pull_row_updated_kept [OF s] Cons.IH [OF r] show ?case
    by (metis le_trans less_le_trans)
qed

lemma pull_rows_flags:
  "pull_rows lib db0 cards nums = Inr cards' \<Longrightarrow>
     length cards \<le> length cards'
     \<and> (\<forall>i < length cards. is_new (cards' ! i) = is_new (cards ! i)
                          \<and> is_updated (cards' ! i) = is_updated (cards ! i))
     \<and> (\<forall>i. length cards \<le> i \<longrightarrow> i < length cards'
            \<longrightarrow> \<not> is_new (cards' ! i) \<and> \<not> is_updated (cards' ! i))"
proof (induction nums arbitrary: cards)
  case Nil
  then show ?case by simp
next
  case (Cons num nums)
  from Cons.prems obtain mid where
    s: "pull_row lib cards num = Inr mid" and r: "pull_rows lib db0 mid nums = Inr cards'"
    by (auto split: sum.splits if_splits)
  note a = pull_row_flags [OF s] and b = Cons.IH [OF r]
  have len: "length cards \<le> length cards'" using a b by simp
  have old: "\<forall>i < length cards. is_new (cards' ! i) = is_new (cards ! i)
                          \<and> is_updated (cards' ! i) = is_updated (cards ! i)"
    using a b by (metis less_le_trans)
  have new: "\<forall>i. length cards \<le> i \<longrightarrow> i < length cards'
            \<longrightarrow> \<not> is_new (cards' ! i) \<and> \<not> is_updated (cards' ! i)"
  proof (intro allI impI)
    fix i assume i: "length cards \<le> i" "i < length cards'"
    show "\<not> is_new (cards' ! i) \<and> \<not> is_updated (cards' ! i)"
    proof (cases "i < length mid")
      case True
      with a i have "\<not> is_new (mid ! i) \<and> \<not> is_updated (mid ! i)" by simp
      with b True show ?thesis by simp
    next
      case False
      with b i show ?thesis by simp
    qed
  qed
  from len old new show ?case by simp
qed

lemma committed_card_flags:
  "is_new (committed_card old new) = is_new new
   \<and> is_updated (committed_card old new) = is_updated new
   \<and> is_new (committed_new new) = is_new new
   \<and> is_updated (committed_new new) = is_updated new"
  by (simp add: committed_card_def committed_new_def)

lemma committed_card_same: "committed_card old old = old"
  by (simp add: committed_card_def written_def)

lemma committed_cards_nth:
  assumes "length db \<le> length cards" and "i < length cards"
  shows "committed_cards db cards ! i =
           (if i < length db then committed_card (db ! i) (cards ! i) else committed_new (cards ! i))"
proof (cases "i < length db")
  case True
  with assms have "i < length (zip db cards)" by simp
  with True show ?thesis by (simp add: committed_cards_def nth_append)
next
  case False
  with assms have "length (zip db cards) = length db" by simp
  with False assms show ?thesis by (simp add: committed_cards_def nth_append)
qed

lemma committed_cards_length:
  "length db \<le> length cards \<Longrightarrow> length (committed_cards db cards) = length cards"
  by (simp add: committed_cards_def)

lemma pull_pass_table:
  "scheduled_task_from_Notion lib c db w = Inr res \<Longrightarrow>
     db_after_pull res = db
     \<or> (\<exists>rows cards. pull_rows lib db db rows = Inr cards
            \<and> db_after_pull res = committed_cards db cards)"
proof -
  assume run: "scheduled_task_from_Notion lib c db w = Inr res"
  show ?thesis
  proof (cases "db_after_pull res = db")
    case True
    then show ?thesis by simp
  next
    case False
    with run obtain rows cards where "pull_rows lib db db (rev rows) = Inr cards"
      and "db_after_pull res = committed_cards db cards"
      by (auto simp: scheduled_task_from_Notion_def split: sum.splits if_splits)
    then show ?thesis by blast
  qed
qed

lemma pull_pass_updated_kept:
  assumes "scheduled_task_from_Notion lib c db w = Inr res"
  shows "length db \<le> length (db_after_pull res)
         \<and> (\<forall>i < length db. is_updated (db ! i) \<longrightarrow> db_after_pull res ! i = db ! i)"
proof -
  from pull_pass_table [OF assms] consider
    (same) "db_after_pull res = db"
    | (rows) rows cards where "pull_rows lib db db rows = Inr cards"
        "db_after_pull res = committed_cards db cards"
    by blast
  then show ?thesis
  proof cases
    case same
    then show ?thesis by simp
  next
    case rows
    note u = pull_rows_updated_kept [OF rows(1)]
    from u have len: "length db \<le> length cards" by simp
    have "\<forall>i < length db. is_updated (db ! i) \<longrightarrow> committed_cards db cards ! i = db ! i"
    proof (intro allI impI)
      fix i assume i: "i < length db" and up: "is_updated (db ! i)"
      from u i up have "cards ! i = db ! i" by simp
      with len i show "committed_cards db cards ! i = db ! i"
        by (simp add: committed_cards_nth committed_card_same)
    qed
    with len rows(2) show ?thesis by (simp add: committed_cards_length)
  qed
qed

lemma pull_pass_flags:
  assumes "scheduled_task_from_Notion lib c db w = Inr res"
  shows "length db \<le> length (db_after_pull res)
         \<and> (\<forall>i < length db. is_new (db_after_pull res ! i) = is_new (db ! i)
                           \<and> is_updated (db_after_pull res ! i) = is_updated (db ! i))
         \<and> (\<forall>i. length db \<le> i \<longrightarrow> i < length (db_after_pull res)
               \<longrightarrow> \<not> is_new (db_after_pull res ! i) \<and> \<not> is_updated (db_after_pull res ! i))"
proof -
  from pull_pass_table [OF assms] consider
    (same) "db_after_pull res = db"
    | (rows) rows cards where "pull_rows lib db db rows = Inr cards"
        "db_after_pull res = committed_cards db cards"
    by blast
  then show ?thesis
  proof cases
    case same
    then show ?thesis by simp
  next
    case rows
    note f = pull_rows_flags [OF rows(1)]
    from f have len: "length db \<le> length cards" by simp
    have fl: "\<forall>i < length cards. is_new (committed_cards db cards ! i) = is_new (cards ! i)
                \<and> is_updated (committed_cards db cards ! i) = is_updated (cards ! i)"
      using len by (simp add: committed_cards_nth committed_card_flags)
    have old: "\<forall>i < length db. is_new (committed_cards db cards ! i) = is_new (db ! i)
                \<and> is_updated (committed_cards db cards ! i) = is_updated (db ! i)"
    proof (intro allI impI)
      fix i assume i: "i < length db"
      with len have "i < length cards" by simp
      with fl f i show "is_new (committed_cards db cards ! i) = is_new (db ! i)
                \<and> is_updated (committed_cards db cards ! i) = is_updated (db ! i)"
        by simp
    qed
    have new: "\<forall>i. length db \<le> i \<longrightarrow> i < length (committed_cards db cards)
                \<longrightarrow> \<not> is_new (committed_cards db cards ! i)
                    \<and> \<not> is_updated (committed_cards db cards ! i)"
    proof (intro allI impI)
      fix i assume i: "length db \<le> i" "i < length (committed_cards db cards)"
      with len have ic: "i < length cards" by (simp add: committed_cards_length)
      with fl f i(1) show "\<not> is_new (committed_cards db cards ! i)
                    \<and> \<not> is_updated (committed_cards db cards ! i)"
        by simp
    qed
    from len old new rows(2) show ?thesis by (simp add: committed_cards_length)
  qed
qed

text \<open>
  C4. A pull pass leaves every record whose \<open>is_updated\<close> flag is set exactly as
  it was, field by field, whatever the external rows hold; and an external row
  whose id is the \<open>id_page\<close> of such a record is passed over: the loop body
  returns the rows unchanged.
\<close>

theorem pull_keeps_locally_updated:
  "(getitem num ''id'' = Inr num_id \<longrightarrow> r \<in> set cards \<longrightarrow> py_eq (id_page r) num_id
      \<longrightarrow> is_updated r \<longrightarrow> pull_row lib cards num = Inr cards)
   \<and> (scheduled_task_from_Notion lib c db w = Inr res \<longrightarrow>
        length db \<le> length (db_after_pull res)
        \<and> (\<forall>i < length db. is_updated (db ! i) \<longrightarrow> db_after_pull res ! i = db ! i))"
proof (rule conjI; intro impI)
  assume nid: "getitem num ''id'' = Inr num_id" and r: "r \<in> set cards"
    and eq: "py_eq (id_page r) num_id" and upd: "is_updated r"
  have "first_index (\<lambda>r. py_eq (id_page r) num_id \<and> is_updated r) cards \<noteq> None"
    using r eq upd by (auto simp: first_index_None)
  then obtain j where "first_index (\<lambda>r. py_eq (id_page r) num_id \<and> is_updated r) cards = Some j"
    by blast
  with nid show "pull_row lib cards num = Inr cards"
    by (simp add: pull_row_def)
next
  assume run: "scheduled_task_from_Notion lib c db w = Inr res"
  then show "length db \<le> length (db_after_pull res)
        \<and> (\<forall>i < length db. is_updated (db ! i) \<longrightarrow> db_after_pull res ! i = db ! i)"
    by (rule pull_pass_updated_kept)
qed

theorem pull_keeps_locally_updated_witness:
  "getitem (page_p1 (title_property ''Cafe Y'')) ''id'' = Inr (PStr ''p1'')
   \<and> cafe_x\<lparr>is_updated := True\<rparr> \<in> set [cafe_x\<lparr>is_updated := True\<rparr>]
   \<and> py_eq (id_page (cafe_x\<lparr>is_updated := True\<rparr>)) (PStr ''p1'')
   \<and> is_updated (cafe_x\<lparr>is_updated := True\<rparr>)
   \<and> pull_row (pylib_plain []) [cafe_x\<lparr>is_updated := True\<rparr>] (page_p1 (title_property ''Cafe Y''))
       = Inr [cafe_x\<lparr>is_updated := True\<rparr>]
   \<and> scheduled_task_from_Notion (pylib_plain []) notion_table [cafe_x\<lparr>is_updated := True\<rparr>]
       [page_p1 (title_property ''Cafe Y'')]
       = Inr \<lparr>db_after_pull = [cafe_x\<lparr>is_updated := True\<rparr>], pull_logged_error = None\<rparr>
   \<and> Name ([cafe_x\<lparr>is_updated := True\<rparr>] ! 0) = PStr ''Cafe X''"
proof -
  have h1: "getitem (page_p1 (title_property ''Cafe Y'')) ''id'' = Inr (PStr ''p1'')"
    by code_simp
  have h2: "cafe_x\<lparr>is_updated := True\<rparr> \<in> set [cafe_x\<lparr>is_updated := True\<rparr>]"
    by simp
  have h3: "py_eq (id_page (cafe_x\<lparr>is_updated := True\<rparr>)) (PStr ''p1'')"
    by code_simp
  have h4: "is_updated (cafe_x\<lparr>is_updated := True\<rparr>)"
    by simp
  have run: "scheduled_task_from_Notion (pylib_plain []) notion_table [cafe_x\<lparr>is_updated := True\<rparr>]
       [page_p1 (title_property ''Cafe Y'')]
       = Inr \<lparr>db_after_pull = [cafe_x\<lparr>is_updated := True\<rparr>], pull_logged_error = None\<rparr>"
    by code_simp
  have nm: "Name ([cafe_x\<lparr>is_updated := True\<rparr>] ! 0) = PStr ''Cafe X''"
    by (simp add: cafe_x_def)
  note t = pull_keeps_locally_updated [of "page_p1 (title_property ''Cafe Y'')" "PStr ''p1''"
      "cafe_x\<lparr>is_updated := True\<rparr>" "[cafe_x\<lparr>is_updated := True\<rparr>]" "pylib_plain []"]
  have row: "pull_row (pylib_plain []) [cafe_x\<lparr>is_updated := True\<rparr>] (page_p1 (title_property ''Cafe Y''))
       = Inr [cafe_x\<lparr>is_updated := True\<rparr>]"
    by (rule t [THEN conjunct1, rule_format, OF h1 h2 h3 h4])
  from h1 h2 h3 h4 row run nm show ?thesis by (intro conjI)
qed

text \<open>
  C5, as the code has it. When the key is found nowhere in the property,
  \<open>search_by_key\<close> returns \<open>None\<close>, and the pull pass assigns that \<open>None\<close> to
  the field: for \<open>Name\<close>, \<open>Type\<close>, the photo, the two phone numbers, the hours
  and the manager the step of the loop is the record with the field set to
  \<open>None\<close>, whatever the field held before.
\<close>

theorem pull_assigns_None_for_absent_key:
  "(recursive_search v k = [] \<longrightarrow> search_by_key v k = PNone)
   \<and> (recursive_search v ''plain_text'' = [] \<longrightarrow>
        pull_property lib ''Name'' v pc = Inr (pc\<lparr>Name := PNone\<rparr>)
        \<and> pull_property lib ''Phone Number'' v pc = Inr (pc\<lparr>phone_number := PNone\<rparr>)
        \<and> pull_property lib ''WhatsApp Number'' v pc = Inr (pc\<lparr>whatsapp := PNone\<rparr>)
        \<and> pull_property lib ''Hours of Operation'' v pc = Inr (pc\<lparr>hours_of_operation := PNone\<rparr>)
        \<and> pull_property lib ''Owner / Manager'' v pc = Inr (pc\<lparr>manager_phone_number := PNone\<rparr>))
   \<and> (recursive_search v ''name'' = [] \<longrightarrow>
        pull_property lib ''Type'' v pc = Inr (pc\<lparr>type := PNone\<rparr>))
   \<and> (recursive_search v ''url'' = [] \<longrightarrow>
        pull_property lib ''Photo Google Drive'' v pc = Inr (pc\<lparr>photo := PNone\<rparr>))"
proof (intro conjI impI)
  assume "recursive_search v k = []"
  then show "search_by_key v k = PNone" by (simp add: search_by_key_def)
next
  assume "recursive_search v ''plain_text'' = []"
  then show "pull_property lib ''Name'' v pc = Inr (pc\<lparr>Name := PNone\<rparr>)"
    by (simp add: pull_property_def search_by_key_def)
next
  assume "recursive_search v ''plain_text'' = []"
  then show "pull_property lib ''Phone Number'' v pc = Inr (pc\<lparr>phone_number := PNone\<rparr>)"
    by (simp add: pull_property_def search_by_key_def)
next
  assume "recursive_search v ''plain_text'' = []"
  then show "pull_property lib ''WhatsApp Number'' v pc = Inr (pc\<lparr>whatsapp := PNone\<rparr>)"
    by (simp add: pull_property_def search_by_key_def)
next
  assume "recursive_search v ''plain_text'' = []"
  then show "pull_property lib ''Hours of Operation'' v pc = Inr (pc\<lparr>hours_of_operation := PNone\<rparr>)"
    by (simp add: pull_property_def search_by_key_def)
next
  assume "recursive_search v ''plain_text'' = []"
  then show "pull_property lib ''Owner / Manager'' v pc = Inr (pc\<lparr>manager_phone_number := PNone\<rparr>)"
    by (simp add: pull_property_def search_by_key_def)
next
  assume "recursive_search v ''name'' = []"
  then show "pull_property lib ''Type'' v pc = Inr (pc\<lparr>type := PNone\<rparr>)"
    by (simp add: pull_property_def search_by_key_def)
next
  assume "recursive_search v ''url'' = []"
  then show "pull_property lib ''Photo Google Drive'' v pc = Inr (pc\<lparr>photo := PNone\<rparr>)"
    by (simp add: pull_property_def search_by_key_def)
qed

theorem pull_assigns_None_for_absent_key_witness:
  "recursive_search empty_title_property ''plain_text'' = []
   \<and> recursive_search empty_title_property ''name'' = []
   \<and> recursive_search empty_title_property ''url'' = []
   \<and> search_by_key empty_title_property ''plain_text'' = PNone
   \<and> Name cafe_x = PStr ''Cafe X''
   \<and> pull_property (pylib_plain []) ''Name'' empty_title_property cafe_x = Inr (cafe_x\<lparr>Name := PNone\<rparr>)
   \<and> pull_property (pylib_plain []) ''Type'' empty_title_property cafe_x = Inr (cafe_x\<lparr>type := PNone\<rparr>)
   \<and> pull_property (pylib_plain []) ''Photo Google Drive'' empty_title_property cafe_x
       = Inr (cafe_x\<lparr>photo := PNone\<rparr>)"
proof -
  have h1: "recursive_search empty_title_property ''plain_text'' = []" by code_simp
  have h2: "recursive_search empty_title_property ''name'' = []" by code_simp
  have h3: "recursive_search empty_title_property ''url'' = []" by code_simp
  have nm: "Name cafe_x = PStr ''Cafe X''" by code_simp
  note t = pull_assigns_None_for_absent_key [of empty_title_property "''plain_text''"
      "pylib_plain []" cafe_x]
  from t h1 have a: "search_by_key empty_title_property ''plain_text'' = PNone" by blast
  from t h1 have b: "pull_property (pylib_plain []) ''Name'' empty_title_property cafe_x
      = Inr (cafe_x\<lparr>Name := PNone\<rparr>)" by blast
  from t h2 have c: "pull_property (pylib_plain []) ''Type'' empty_title_property cafe_x
      = Inr (cafe_x\<lparr>type := PNone\<rparr>)" by blast
  from t h3 have d: "pull_property (pylib_plain []) ''Photo Google Drive'' empty_title_property cafe_x
      = Inr (cafe_x\<lparr>photo := PNone\<rparr>)" by blast
  from h1 h2 h3 a nm b c d show ?thesis by (intro conjI)
qed

theorem pull_overwrites_name_counterexample:
  "recursive_search empty_title_property ''plain_text'' = []
   \<and> Name cafe_x = PStr ''Cafe X''
   \<and> scheduled_task_from_Notion (pylib_plain []) notion_table [cafe_x] [page_p1 empty_title_property]
       = Inr \<lparr>db_after_pull = [cafe_x\<lparr>Name := PNone\<rparr>], pull_logged_error = None\<rparr>
   \<and> Name (cafe_x\<lparr>Name := PNone\<rparr>) \<noteq> PStr ''Cafe X''"
  by code_simp

lemma creation_sets_no_is_new:
  "\<forall>r \<in> set db. \<not> is_new r \<Longrightarrow> \<forall>r \<in> set (handle_company_name company_name db). \<not> is_new r"
  by (simp add: handle_company_name_def insert_card_def new_ModelPlaceCard_def Let_def)

lemma push_sets_no_is_new:
  assumes "\<forall>r \<in> set db. \<not> is_new r" and "scheduled_task_to_Notion c db w = Inr res"
  shows "\<forall>r \<in> set (db_after res). \<not> is_new r"
  using push_pass_table [OF assms(2)] assms(1) by (auto simp: clear_flags_def)

text \<open>
  C10. No statement of the repository sets \<open>is_new\<close> to \<open>True\<close>, so the tables
  the code produces hold no record with \<open>is_new\<close>: creation from the chat and
  the push pass keep that (the two lemmas above) and so does the pull pass (the
  last line below). On such a table a pull pass that returns \<open>res\<close> has changed
  no flag; every record that it may overwrite, which are those without
  \<open>is_updated\<close>, and every record that it has created end the pass with
  \<open>is_new = False\<close> and \<open>is_updated = False\<close>; and a record that is selected
  for push after the pass was in the table before it and is exactly the record it
  was then, so nothing that the pass wrote is a push candidate.
\<close>

theorem pulled_records_are_no_push_candidates:
  assumes "\<forall>r \<in> set db. \<not> is_new r"
    and "scheduled_task_from_Notion lib c db w = Inr res"
  shows "length db \<le> length (db_after_pull res)
         \<and> (\<forall>i < length db. is_new (db_after_pull res ! i) = is_new (db ! i)
                           \<and> is_updated (db_after_pull res ! i) = is_updated (db ! i))
         \<and> (\<forall>i < length db. \<not> is_updated (db ! i) \<longrightarrow>
               \<not> is_new (db_after_pull res ! i) \<and> \<not> is_updated (db_after_pull res ! i))
         \<and> (\<forall>i. length db \<le> i \<longrightarrow> i < length (db_after_pull res) \<longrightarrow>
               \<not> is_new (db_after_pull res ! i) \<and> \<not> is_updated (db_after_pull res ! i))
         \<and> (\<forall>i < length (db_after_pull res). selected_for_push (db_after_pull res ! i) \<longrightarrow>
               i < length db \<and> db_after_pull res ! i = db ! i)
         \<and> (\<forall>r \<in> set (db_after_pull res). \<not> is_new r)"
proof -
  let ?A = "db_after_pull res"
  note f = pull_pass_flags [OF assms(2)] and u = pull_pass_updated_kept [OF assms(2)]
  from f have len: "length db \<le> length ?A" by simp
  from f have kept: "\<forall>i < length db. is_new (?A ! i) = is_new (db ! i)
                           \<and> is_updated (?A ! i) = is_updated (db ! i)" by simp
  from f have created: "\<forall>i. length db \<le> i \<longrightarrow> i < length ?A \<longrightarrow>
               \<not> is_new (?A ! i) \<and> \<not> is_updated (?A ! i)" by simp
  have old_new: "\<forall>i < length db. \<not> is_new (db ! i)"
    using assms(1) by simp
  have over: "\<forall>i < length db. \<not> is_updated (db ! i) \<longrightarrow>
               \<not> is_new (?A ! i) \<and> \<not> is_updated (?A ! i)"
    using kept old_new by simp
  have all_new: "\<forall>i < length ?A. \<not> is_new (?A ! i)"
  proof (intro allI impI)
    fix i assume i: "i < length ?A"
    show "\<not> is_new (?A ! i)"
    proof (cases "i < length db")
      case True
      with kept old_new show ?thesis by simp
    next
      case False
      with created i show ?thesis by simp
    qed
  qed
  have cand: "\<forall>i < length ?A. selected_for_push (?A ! i) \<longrightarrow> i < length db \<and> ?A ! i = db ! i"
  proof (intro allI impI)
    fix i assume i: "i < length ?A" and sel: "selected_for_push (?A ! i)"
    from all_new i sel have up: "is_updated (?A ! i)" by (simp add: selected_for_push_def)
    have il: "i < length db"
    proof (rule ccontr)
      assume "\<not> i < length db"
      with created i have "\<not> is_updated (?A ! i)" by simp
      with up show False by simp
    qed
    with kept up have "is_updated (db ! i)" by simp
    with u il have "?A ! i = db ! i" by simp
    with il show "i < length db \<and> ?A ! i = db ! i" by simp
  qed
  have inv: "\<forall>r \<in> set ?A. \<not> is_new r"
    using all_new by (auto simp: in_set_conv_nth)
  from len kept over created cand inv show ?thesis by (intro conjI)
qed

theorem pulled_records_are_no_push_candidates_witness:
  "\<not> is_new cafe_x
   \<and> scheduled_task_from_Notion (pylib_plain []) notion_table [cafe_x]
       [page_p1 (title_property ''Cafe Y''),
        PDict [(''object'', PStr ''page''), (''id'', PStr ''p2''),
               (''properties'', PDict [(''Name'', title_property ''Cafe Z'')])]]
     = Inr \<lparr>db_after_pull =
              [cafe_x\<lparr>Name := PStr ''Cafe Y''\<rparr>,
               blank_card\<lparr>Name := PStr ''Cafe Z'', id_key := 2, id_page := PStr ''p2''\<rparr>],
            pull_logged_error = None\<rparr>
   \<and> cafe_x\<lparr>Name := PStr ''Cafe Y''\<rparr> \<noteq> cafe_x
   \<and> is_new (cafe_x\<lparr>Name := PStr ''Cafe Y''\<rparr>) = False
   \<and> is_updated (cafe_x\<lparr>Name := PStr ''Cafe Y''\<rparr>) = False
   \<and> selected_for_push (cafe_x\<lparr>Name := PStr ''Cafe Y''\<rparr>) = False
   \<and> is_new (blank_card\<lparr>Name := PStr ''Cafe Z'', id_key := 2, id_page := PStr ''p2''\<rparr>) = False
   \<and> is_updated (blank_card\<lparr>Name := PStr ''Cafe Z'', id_key := 2, id_page := PStr ''p2''\<rparr>) = False"
proof -
  let ?y = "cafe_x\<lparr>Name := PStr ''Cafe Y''\<rparr>"
  let ?z = "blank_card\<lparr>Name := PStr ''Cafe Z'', id_key := 2, id_page := PStr ''p2''\<rparr>"
  have h0: "\<not> is_new cafe_x" by code_simp
  have h: "\<forall>r \<in> set [cafe_x]. \<not> is_new r" using h0 by simp
  have run: "scheduled_task_from_Notion (pylib_plain []) notion_table [cafe_x]
       [page_p1 (title_property ''Cafe Y''),
        PDict [(''object'', PStr ''page''), (''id'', PStr ''p2''),
               (''properties'', PDict [(''Name'', title_property ''Cafe Z'')])]]
     = Inr \<lparr>db_after_pull = [?y, ?z], pull_logged_error = None\<rparr>"
    by code_simp
  have ne: "?y \<noteq> cafe_x" by code_simp
  have nu: "\<not> is_updated cafe_x" by code_simp
  note t = pulled_records_are_no_push_candidates [OF h run]
  from t have over: "\<forall>i < length [cafe_x]. \<not> is_updated ([cafe_x] ! i) \<longrightarrow>
      \<not> is_new ([?y, ?z] ! i) \<and> \<not> is_updated ([?y, ?z] ! i)"
    by simp
  from over nu have y: "\<not> is_new ?y \<and> \<not> is_updated ?y" by simp
  from t have inv: "\<forall>r \<in> set [?y, ?z]. \<not> is_new r" by simp
  then have zn: "\<not> is_new ?z" by simp
  from t have cr: "\<forall>i. length [cafe_x] \<le> i \<longrightarrow> i < length [?y, ?z] \<longrightarrow>
      \<not> is_new ([?y, ?z] ! i) \<and> \<not> is_updated ([?y, ?z] ! i)"
    by simp
  from cr [rule_format, of 1] have zu: "\<not> is_updated ?z" by simp
  from y have ys: "\<not> selected_for_push ?y" by (simp add: selected_for_push_def)
  from h0 run ne y ys zn zu show ?thesis by simp
qed

section \<open>Properties of the resolver and of the field mapper\<close>

lemma split_on_nonempty: "split_on sep s \<noteq> []"
  by (induction s) (auto split: list.splits)

lemma split_on_has_two: "sep \<in> set s \<Longrightarrow> \<exists>a b r. split_on sep s = a # b # r"
proof (induction s)
  case Nil
  then show ?case by simp
next
  case (Cons c s)
  show ?case
  proof (cases "c = sep")
    case True
    obtain w ws where "split_on sep s = w # ws"
      using split_on_nonempty [of sep s] by (cases "split_on sep s") auto
    with True show ?thesis by simp
  next
    case False
    with Cons.prems have "sep \<in> set s" by simp
    from Cons.IH [OF this] obtain a b r where "split_on sep s = a # b # r" by blast
    with False show ?thesis by simp
  qed
qed

lemma extract_from_parts_first_match:
  "extract_from_parts lib [] parts =
     (case find (\<lambda>p. CHR ''@'' \<in> set p \<or> re_match_coordinates p) parts of
        None \<Rightarrow> Inr None
      | Some part \<Rightarrow>
          float_pair lib
            (if CHR ''@'' \<in> set part
             then take 2 (split_on CHR '','' (split_on CHR ''@'' part ! 1))
             else split_on CHR '','' part))"
proof (induction parts)
  case Nil
  then show ?case by simp
next
  case (Cons part parts)
  show ?case
  proof (cases "CHR ''@'' \<in> set part")
    case True
    from split_on_has_two [OF True] obtain a b r where
      sp: "split_on CHR ''@'' part = a # b # r" by blast
    obtain t ts where tk: "split_on CHR '','' b = t # ts"
      using split_on_nonempty [of "CHR '',''" b] by (cases "split_on CHR '','' b") auto
    from True sp tk show ?thesis by simp
  next
    case False
    show ?thesis
    proof (cases "re_match_coordinates part")
      case True
      with False show ?thesis by (simp add: split_on_nonempty)
    next
      case no: False
      with False Cons.IH show ?thesis by simp
    qed
  qed
qed

lemma float_pair_returns:
  "(\<exists>p. float_pair lib coords = Inr p) =
     (\<exists>c0 c1 cs. coords = c0 # c1 # cs \<and> float_of_str lib c0 \<noteq> None \<and> float_of_str lib c1 \<noteq> None)"
  by (auto simp: float_pair_def split: list.splits option.splits)

lemma float_pair_raises:
  "float_pair lib coords = Inl e \<Longrightarrow> e = ValueError \<or> e = IndexError"
  by (auto simp: float_pair_def split: list.splits option.splits)

text \<open>
  C7, as the code has it. The resolver returns a pair, returns no result, or
  raises. An input that does not start with \<open>https://\<close> gives no result and no
  exception. A link of 70 characters or more is parsed as it is, a shorter one
  after the redirect, whose exception is the resolver's. In the parse the first
  path segment that contains \<open>@\<close> or matches the pattern decides: with no such
  segment there is no result; otherwise the result is that of \<open>float\<close> on its
  first two tokens, which is a pair exactly when there are two tokens and both are
  numbers and is otherwise the \<open>ValueError\<close> or \<open>IndexError\<close>, raised to
  the caller.
\<close>

theorem resolver_returns_or_raises:
  "(\<not> startswith url ''https://'' \<longrightarrow> get_coordinates_from_link lib url = Inr None)
   \<and> (startswith url ''https://'' \<longrightarrow> 70 \<le> length url \<longrightarrow>
        get_coordinates_from_link lib url = extract_coordinates_google_maps lib url)
   \<and> (startswith url ''https://'' \<longrightarrow> length url < 70 \<longrightarrow>
        get_coordinates_from_link lib url =
          (case requests_head_url lib url of
             Inl e \<Rightarrow> Inl e
           | Inr full_url \<Rightarrow> extract_coordinates_google_maps lib full_url))
   \<and> extract_from_parts lib [] parts =
        (case find (\<lambda>p. CHR ''@'' \<in> set p \<or> re_match_coordinates p) parts of
           None \<Rightarrow> Inr None
         | Some part \<Rightarrow>
             float_pair lib
               (if CHR ''@'' \<in> set part
                then take 2 (split_on CHR '','' (split_on CHR ''@'' part ! 1))
                else split_on CHR '','' part))
   \<and> ((\<exists>p. float_pair lib coords = Inr p) =
        (\<exists>c0 c1 cs. coords = c0 # c1 # cs
            \<and> float_of_str lib c0 \<noteq> None \<and> float_of_str lib c1 \<noteq> None))
   \<and> (float_pair lib coords = Inl e \<longrightarrow> e = ValueError \<or> e = IndexError)"
proof (intro conjI impI)
  assume "\<not> startswith url ''https://''"
  then show "get_coordinates_from_link lib url = Inr None"
    by (simp add: get_coordinates_from_link_def)
next
  assume "startswith url ''https://''" "70 \<le> length url"
  then show "get_coordinates_from_link lib url = extract_coordinates_google_maps lib url"
    by (simp add: get_coordinates_from_link_def)
next
  assume "startswith url ''https://''" "length url < 70"
  then show "get_coordinates_from_link lib url =
          (case requests_head_url lib url of
             Inl e \<Rightarrow> Inl e
           | Inr full_url \<Rightarrow> extract_coordinates_google_maps lib full_url)"
    by (simp add: get_coordinates_from_link_def get_coordinates_from_short_url_def get_full_url_def)
next
  show "extract_from_parts lib [] parts =
        (case find (\<lambda>p. CHR ''@'' \<in> set p \<or> re_match_coordinates p) parts of
           None \<Rightarrow> Inr None
         | Some part \<Rightarrow>
             float_pair lib
               (if CHR ''@'' \<in> set part
                then take 2 (split_on CHR '','' (split_on CHR ''@'' part ! 1))
                else split_on CHR '','' part))"
    by (rule extract_from_parts_first_match)
next
  show "(\<exists>p. float_pair lib coords = Inr p) =
        (\<exists>c0 c1 cs. coords = c0 # c1 # cs
            \<and> float_of_str lib c0 \<noteq> None \<and> float_of_str lib c1 \<noteq> None)"
    by (rule float_pair_returns)
next
  assume "float_pair lib coords = Inl e"
  then show "e = ValueError \<or> e = IndexError" by (rule float_pair_raises)
qed

theorem resolver_returns_or_raises_witness:
  "\<not> startswith ''maps.google.com/maps/@9.748917,-83.753428,15z'' ''https://''
   \<and> get_coordinates_from_link
        (pylib_plain [(''https://maps.app.goo.gl/abcDEF'', long_link)])
        ''maps.google.com/maps/@9.748917,-83.753428,15z'' = Inr None
   \<and> startswith long_link ''https://'' \<and> 70 \<le> length long_link
   \<and> get_coordinates_from_link (pylib_plain [(''https://maps.app.goo.gl/abcDEF'', long_link)]) long_link
       = Inr (Some (''9.748917'', ''-83.753428''))
   \<and> startswith ''https://maps.app.goo.gl/abcDEF'' ''https://''
   \<and> length ''https://maps.app.goo.gl/abcDEF'' < 70
   \<and> get_coordinates_from_link (pylib_plain [(''https://maps.app.goo.gl/abcDEF'', long_link)])
        ''https://maps.app.goo.gl/abcDEF'' = Inr (Some (''9.748917'', ''-83.753428''))
   \<and> float_pair (pylib_plain [(''https://maps.app.goo.gl/abcDEF'', long_link)]) [''9.748917''] = Inl IndexError"
proof -
  let ?lib = "pylib_plain [(''https://maps.app.goo.gl/abcDEF'', long_link)]"
  have h1: "\<not> startswith ''maps.google.com/maps/@9.748917,-83.753428,15z'' ''https://''"
    by code_simp
  have h2: "startswith long_link ''https://''" by code_simp
  have h3: "70 \<le> length long_link" by code_simp
  have h4: "startswith ''https://maps.app.goo.gl/abcDEF'' ''https://''" by code_simp
  have h5: "length ''https://maps.app.goo.gl/abcDEF'' < 70" by simp
  have e1: "extract_coordinates_google_maps ?lib long_link = Inr (Some (''9.748917'', ''-83.753428''))"
    by code_simp
  have e2: "requests_head_url ?lib ''https://maps.app.goo.gl/abcDEF'' = Inr long_link"
    by (simp add: pylib_plain_def)
  have e3: "float_pair ?lib [''9.748917''] = Inl IndexError" by code_simp
  note t1 = resolver_returns_or_raises [of "''maps.google.com/maps/@9.748917,-83.753428,15z''" ?lib]
  note t2 = resolver_returns_or_raises [of long_link ?lib]
  note t3 = resolver_returns_or_raises [of "''https://maps.app.goo.gl/abcDEF''" ?lib]
  have a: "get_coordinates_from_link ?lib ''maps.google.com/maps/@9.748917,-83.753428,15z'' = Inr None"
    by (rule t1 [THEN conjunct1, rule_format, OF h1])
  have b: "get_coordinates_from_link ?lib long_link = Inr (Some (''9.748917'', ''-83.753428''))"
    using t2 [THEN conjunct2, THEN conjunct1, rule_format, OF h2 h3] e1 by simp
  have c: "get_coordinates_from_link ?lib ''https://maps.app.goo.gl/abcDEF''
             = Inr (Some (''9.748917'', ''-83.753428''))"
    using t3 [THEN conjunct2, THEN conjunct2, THEN conjunct1, rule_format, OF h4 h5] e1 e2 by simp
  from h1 a h2 h3 b h4 h5 c e3 show ?thesis by (intro conjI)
qed

theorem resolver_raises_counterexample:
  "get_coordinates_from_link (pylib_plain []) bad_link = Inl ValueError
   \<and> startswith bad_link ''https://''
   \<and> plain_path bad_link = Inr ''/maps/place/Cafe+X/@abc/data=!3m1!4b1!4m6!3m5!1s0x0:0x0''
   \<and> plain_float ''abc'' = None"
  by code_simp

text \<open>
  C6: the text stored for the pair \<open>(9.748917, -83.753428)\<close> that the
  resolver returns for \<open>long_link\<close>. The slice \<open>[1:-2]\<close> takes the closing
  parenthesis and the last digit of the longitude with it, and the blank that
  \<open>str\<close> puts after the comma stays.
\<close>

theorem coordinates_text_drops_last_digit:
  "coordinates_text (pylib_plain []) (''9.748917'', ''-83.753428'') = ''9.748917, -83.75342''"
  by code_simp

lemma coordinates_text_shape:
  "str_of_float lib b \<noteq> [] \<Longrightarrow>
     coordinates_text lib (a, b) = str_of_float lib a @ '', '' @ butlast (str_of_float lib b)"
proof -
  assume "str_of_float lib b \<noteq> []"
  then obtain xs x where s: "str_of_float lib b = xs @ [x]"
    by (cases "str_of_float lib b" rule: rev_cases) auto
  then show ?thesis
    by (simp add: coordinates_text_def slice_1_minus_2_def str_of_pair_def)
qed

text \<open>
  C8: a record with a location and no manager number. \<open>to_dict\<close> emits the name
  and no \<open>Location\<close>: the item is added under the test of \<open>manager_phone_number\<close>.
\<close>

theorem to_dict_omits_location:
  "to_dict (blank_card\<lparr>Name := PStr ''Cafe X'', location := PStr ''Canggu''\<rparr>)
     = [(''Name'', PStr ''Cafe X'')]"
  by code_simp

lemma to_dict_location_iff:
  "(''Location'' \<in> fst ` set (to_dict r)) = truthy (manager_phone_number r)"
  by (auto simp: to_dict_def split: if_splits)

text \<open>
  C9, as the code has it. A name that passes the check and that no record bears
  makes \<open>handle_company_name\<close> add one record: the name, and every other column
  at its default, so \<open>is_new\<close> and \<open>is_updated\<close> are \<open>False\<close> and the push pass
  does not select it. And a push pass never sets \<open>is_new\<close>: a record that has it
  after the pass had it before.
\<close>

theorem created_record_is_not_new:
  "(validate_name company_name \<longrightarrow> (\<forall>r \<in> set db. \<not> py_eq (Name r) (PStr company_name)) \<longrightarrow>
      handle_company_name company_name db =
        db @ [blank_card\<lparr>Name := PStr company_name, id_key := next_id_key db\<rparr>]
      \<and> \<not> is_new (blank_card\<lparr>Name := PStr company_name, id_key := next_id_key db\<rparr>)
      \<and> \<not> is_updated (blank_card\<lparr>Name := PStr company_name, id_key := next_id_key db\<rparr>)
      \<and> \<not> selected_for_push (blank_card\<lparr>Name := PStr company_name, id_key := next_id_key db\<rparr>))
   \<and> (scheduled_task_to_Notion c table w = Inr res \<longrightarrow>
        length (db_after res) = length table
        \<and> (\<forall>i < length table. is_new (db_after res ! i) \<longrightarrow> is_new (table ! i)))"
proof (rule conjI; intro impI)
  assume v: "validate_name company_name"
    and none: "\<forall>r \<in> set db. \<not> py_eq (Name r) (PStr company_name)"
  from none have "filter (\<lambda>r. py_eq (Name r) (PStr company_name)) db = []"
    by (simp add: filter_empty_conv)
  with v have "handle_company_name company_name db =
        insert_card db (new_ModelPlaceCard\<lparr>Name := PStr company_name\<rparr>)"
    by (simp add: handle_company_name_def)
  also have "\<dots> = db @ [blank_card\<lparr>Name := PStr company_name, id_key := next_id_key db\<rparr>]"
    by (simp add: insert_card_def new_ModelPlaceCard_def blank_card_def column_default_def)
  finally show "handle_company_name company_name db =
        db @ [blank_card\<lparr>Name := PStr company_name, id_key := next_id_key db\<rparr>]
      \<and> \<not> is_new (blank_card\<lparr>Name := PStr company_name, id_key := next_id_key db\<rparr>)
      \<and> \<not> is_updated (blank_card\<lparr>Name := PStr company_name, id_key := next_id_key db\<rparr>)
      \<and> \<not> selected_for_push (blank_card\<lparr>Name := PStr company_name, id_key := next_id_key db\<rparr>)"
    by (simp add: blank_card_def selected_for_push_def)
next
  assume run: "scheduled_task_to_Notion c table w = Inr res"
  from push_pass_table [OF run]
  show "length (db_after res) = length table
        \<and> (\<forall>i < length table. is_new (db_after res ! i) \<longrightarrow> is_new (table ! i))"
    by (auto simp: clear_flags_def)
qed

theorem created_record_is_not_new_witness:
  "validate_name ''Cafe X''
   \<and> handle_company_name ''Cafe X'' [cafe_a] =
       [cafe_a, blank_card\<lparr>Name := PStr ''Cafe X'', id_key := 2\<rparr>]
   \<and> \<not> is_new (blank_card\<lparr>Name := PStr ''Cafe X'', id_key := 2\<rparr>)
   \<and> \<not> selected_for_push (blank_card\<lparr>Name := PStr ''Cafe X'', id_key := 2\<rparr>)
   \<and> scheduled_task_to_Notion notion_table [cafe_a, blank_card\<lparr>Name := PStr ''Cafe X'', id_key := 2\<rparr>] []
       = Inr \<lparr>db_after = [clear_flags cafe_a, blank_card\<lparr>Name := PStr ''Cafe X'', id_key := 2\<rparr>],
              world_after =
                [make_page (PStr ''page-0'')
                   [(''Name'', PDict [(''title'', PList [text_item (PStr ''Cafe A'')])])]],
              upsert_calls = [(id_page cafe_a, to_dict cafe_a)],
              logged_error = None\<rparr>"
proof -
  have v: "validate_name ''Cafe X''" by code_simp
  have none: "\<forall>r \<in> set [cafe_a]. \<not> py_eq (Name r) (PStr ''Cafe X'')"
    by (simp add: cafe_a_def blank_card_def)
  have k: "next_id_key [cafe_a] = 2" by code_simp
  have run: "scheduled_task_to_Notion notion_table [cafe_a, blank_card\<lparr>Name := PStr ''Cafe X'', id_key := 2\<rparr>] []
       = Inr \<lparr>db_after = [clear_flags cafe_a, blank_card\<lparr>Name := PStr ''Cafe X'', id_key := 2\<rparr>],
              world_after =
                [make_page (PStr ''page-0'')
                   [(''Name'', PDict [(''title'', PList [text_item (PStr ''Cafe A'')])])]],
              upsert_calls = [(id_page cafe_a, to_dict cafe_a)],
              logged_error = None\<rparr>"
    by code_simp
  note t = created_record_is_not_new [of "''Cafe X''" "[cafe_a]", THEN conjunct1, THEN mp, OF v, THEN mp, OF none]
  from t k v run show ?thesis by simp
qed

theorem created_record_counterexample:
  "validate_name ''Cafe X''
   \<and> handle_company_name ''Cafe X'' [] = [blank_card\<lparr>Name := PStr ''Cafe X'', id_key := 1\<rparr>]
   \<and> is_new (blank_card\<lparr>Name := PStr ''Cafe X'', id_key := 1\<rparr>) = False
   \<and> selected_for_push (blank_card\<lparr>Name := PStr ''Cafe X'', id_key := 1\<rparr>) = False"
  by code_simp

end
